theory Spec2Isabelle
  imports Main
begin

text \<open>
  A model of the website streamer: a Node.js program that renders a web page in a
  browser, feeds frames to an \<open>ffmpeg\<close> subprocess that publishes them, reloads the page
  from time to time and restarts everything when a run fails. The current program
  (\<open>src/index.js\<close>) takes frames from a CDP screencast; an earlier version polls
  \<open>page.screenshot()\<close>, and version 2.0 lets the encoder grab a virtual display. The
  class \<open>WebsiteStreamer\<close> is a record, each of its methods a function from the object
  to the object, the outcome and the effects on the outside world; what the browser, the
  pipe and the clock answer is an argument of the method. Event handlers and the loops
  of \<open>start\<close> and \<open>main\<close> run over lists of what the runtime delivers.
\<close>

section \<open>Configuration\<close>

text \<open>
  The \<open>CONFIG\<close> object of \<open>src/index.js\<close> reads \<open>process.env\<close> once at load time.
  A numeric setting is \<open>parseInt(process.env.X) || default\<close>: the environment gives what
  \<open>parseInt\<close> returns (\<open>None\<close> for \<open>NaN\<close>, that is, unset or not a number), and
  \<open>||\<close> replaces \<open>NaN\<close> and \<open>0\<close> by the default. \<open>STREAM_KEY\<close> is the raw variable,
  \<open>None\<close> when it is \<open>undefined\<close>.
\<close>

record environment =
  env_STREAM_KEY :: "string option"
  env_FPS :: "int option"
  env_RESTART_DELAY :: "int option"
  env_PAGE_REFRESH_INTERVAL :: "int option"

record config =
  STREAM_KEY :: "string option"
  FPS :: int
  RESTART_DELAY :: int
  PAGE_REFRESH_INTERVAL :: int

definition parseInt_or :: "int option \<Rightarrow> int \<Rightarrow> int" where
  "parseInt_or v d = (case v of None \<Rightarrow> d | Some n \<Rightarrow> if n = 0 then d else n)"

definition CONFIG :: "environment \<Rightarrow> config" where
  "CONFIG e =
     \<lparr> STREAM_KEY = env_STREAM_KEY e,
       FPS = parseInt_or (env_FPS e) 24,
       RESTART_DELAY = parseInt_or (env_RESTART_DELAY e) 5000,
       PAGE_REFRESH_INTERVAL = parseInt_or (env_PAGE_REFRESH_INTERVAL e) 3600000 \<rparr>"

text \<open>The getter \<open>FRAME_INTERVAL\<close>: \<open>Math.floor(1000 / this.FPS)\<close>; \<open>FPS\<close> is never 0.\<close>

definition FRAME_INTERVAL :: "config \<Rightarrow> int" where
  "FRAME_INTERVAL c = 1000 div FPS c"

section \<open>Errors and observable effects\<close>

text \<open>
  Every exception of the program is a value. \<open>ConfigError\<close> is the \<open>Error\<close> thrown by
  \<open>validateConfig\<close>; the others are raised by the collaborators (Puppeteer, the CDP
  session, the pipe) or by reading a property of \<open>null\<close>.
\<close>

datatype error =
    ConfigError
  | LaunchError
  | NavigationError
  | CdpError
  | BrowserCloseError
  | TypeError

text \<open>
  What a method does to the outside world, in program order: log lines by level, calls on
  the browser, the page, the CDP session and the encoder subprocess, timers, and the exit
  of the process. \<open>Sleep ms\<close> is \<open>await new Promise(resolve => setTimeout(resolve, ms))\<close>;
  \<open>SetTimeout ms Relaunch\<close> is \<open>setTimeout(() => this.startFFmpeg(), ms)\<close>;
  \<open>AwaitEvent ev\<close> is a suspension of the caller until the subprocess emits \<open>ev\<close>.
\<close>

datatype level = Info | Warn | Err | Debug

datatype signal = SIGTERM | SIGINT | SIGKILL

datatype proc_event = Drain | Close

datatype cdp_command = StartScreencast | StopScreencast | ScreencastFrameAck nat

datatype timer_action = Relaunch

type_synonym frame = "nat list"

text \<open>What \<open>ffmpeg.stdin.write\<close> does: returns \<open>true\<close>, returns \<open>false\<close> (buffer full), or throws.\<close>

datatype write_env = WriteAccepted | WriteBufferFull | WriteThrows

datatype effect =
    Log level
  | BrowserLaunch
  | BrowserNewPage
  | BrowserClose
  | PageSetup
  | PageGoto
  | PageReload
  | PageScreenshot
  | Sleep int
  | SpawnFFmpeg
  | StdinWrite frame write_env
  | StdinEnd
  | OnceDrain
  | AwaitEvent proc_event
  | Kill signal
  | CdpCreate
  | CdpSend cdp_command
  | CdpDetach
  | SetTimeout int timer_action
  | OnSignal signal
  | ProcessExit int

section \<open>The streamer object\<close>

text \<open>
  The fields of \<open>class WebsiteStreamer\<close>. A handle is \<open>None\<close> when the field is \<open>null\<close>.
  Of the encoder subprocess the program reads only \<open>stdin.writable\<close>. \<open>frameCount\<close> is a
  JavaScript number that only ever starts at 0 and is incremented, so it is a natural
  number (the increment is exact below \<open>2^53\<close>). Times are \<open>Date.now()\<close> values in
  milliseconds.
\<close>

datatype browser_handle = Browser
datatype page_handle = Page
datatype cdp_handle = CDPSession

record encoder =
  stdin_writable :: bool

record streamer =
  browser :: "browser_handle option"
  page :: "page_handle option"
  cdpSession :: "cdp_handle option"
  ffmpeg :: "encoder option"
  isRunning :: bool
  frameCount :: nat
  lastRefreshTime :: int

text \<open>The constructor; \<open>now\<close> is \<open>Date.now()\<close>.\<close>

definition new_WebsiteStreamer :: "int \<Rightarrow> streamer" where
  "new_WebsiteStreamer now =
     \<lparr> browser = None, page = None, cdpSession = None, ffmpeg = None,
       isRunning = False, frameCount = 0, lastRefreshTime = now \<rparr>"

text \<open>The guard \<open>!this.ffmpeg || !this.ffmpeg.stdin.writable\<close>.\<close>

definition encoder_not_ready :: "streamer \<Rightarrow> bool" where
  "encoder_not_ready s = (case ffmpeg s of None \<Rightarrow> True | Some p \<Rightarrow> \<not> stdin_writable p)"

subsection \<open>validateConfig\<close>

text \<open>\<open>!CONFIG.STREAM_KEY\<close> holds for \<open>undefined\<close> and for the empty string.\<close>

definition falsy :: "string option \<Rightarrow> bool" where
  "falsy k = (case k of None \<Rightarrow> True | Some v \<Rightarrow> v = [])"

definition validateConfig :: "config \<Rightarrow> (error + unit) \<times> effect list" where
  "validateConfig c =
     (if falsy (STREAM_KEY c) then (Inl ConfigError, [])
      else (Inr (), [Log Info, Log Info, Log Info, Log Info, Log Info]))"

subsection \<open>startBrowser, loadPage, refreshPageIfNeeded\<close>

text \<open>
  \<open>startBrowser\<close> awaits \<open>puppeteer.launch\<close>, \<open>browser.newPage\<close> and
  \<open>page.setUserAgent\<close>; each may reject, and the fields assigned before stay assigned.
\<close>

datatype browser_env = LaunchThrows | NewPageThrows | SetUserAgentThrows | BrowserReady

definition startBrowser ::
  "browser_env \<Rightarrow> streamer \<Rightarrow> (error + unit) \<times> streamer \<times> effect list" where
  "startBrowser env s =
     (case env of
        LaunchThrows \<Rightarrow> (Inl LaunchError, s, [Log Info, BrowserLaunch])
      | NewPageThrows \<Rightarrow>
          (Inl LaunchError, s\<lparr>browser := Some Browser\<rparr>,
           [Log Info, BrowserLaunch, BrowserNewPage])
      | SetUserAgentThrows \<Rightarrow>
          (Inl LaunchError, s\<lparr>browser := Some Browser, page := Some Page\<rparr>,
           [Log Info, BrowserLaunch, BrowserNewPage, PageSetup])
      | BrowserReady \<Rightarrow>
          (Inr (), s\<lparr>browser := Some Browser, page := Some Page\<rparr>,
           [Log Info, BrowserLaunch, BrowserNewPage, PageSetup, Log Info]))"

text \<open>
  \<open>loadPage\<close>: \<open>page.goto\<close> of the configured URL, a 3000 ms settle wait, then
  \<open>lastRefreshTime = Date.now()\<close>. A failure is logged and thrown again; with
  \<open>this.page === null\<close> the call \<open>this.page.goto\<close> is itself the failure.
\<close>

record load_env =
  nav_ok :: bool
  finished_at :: int

definition loadPage ::
  "load_env \<Rightarrow> streamer \<Rightarrow> (error + unit) \<times> streamer \<times> effect list" where
  "loadPage env s =
     (if page s = None then (Inl TypeError, s, [Log Info, Log Err])
      else if \<not> nav_ok env then (Inl NavigationError, s, [Log Info, PageGoto, Log Err])
      else (Inr (), s\<lparr>lastRefreshTime := finished_at env\<rparr>,
            [Log Info, PageGoto, Sleep 3000, Log Info]))"

text \<open>\<open>refreshPageIfNeeded\<close>; \<open>now\<close> is the \<open>Date.now()\<close> it reads.\<close>

definition refreshPageIfNeeded ::
  "config \<Rightarrow> int \<Rightarrow> load_env \<Rightarrow> streamer \<Rightarrow> (error + unit) \<times> streamer \<times> effect list" where
  "refreshPageIfNeeded cfg now env s =
     (let timeSinceRefresh = now - lastRefreshTime s in
      if timeSinceRefresh \<ge> PAGE_REFRESH_INTERVAL cfg then
        (case loadPage env s of (r, s', fx) \<Rightarrow> (r, s', Log Info # fx))
      else (Inr (), s, []))"

subsection \<open>The encoder subprocess\<close>

text \<open>
  \<open>startFFmpeg\<close> spawns the subprocess with its three pipes and stores the handle; the
  argument vector (and the choice between the music file and silence, which logs one
  line either way) does not influence the object. The \<open>'close'\<close> handler it registers is
  \<open>onClose\<close>: it forgets the handle and, when \<open>isRunning\<close>, arms a 1000 ms timer whose
  callback is \<open>startFFmpeg\<close>.
\<close>

definition startFFmpeg :: "streamer \<Rightarrow> streamer \<times> effect list" where
  "startFFmpeg s =
     (s\<lparr>ffmpeg := Some \<lparr>stdin_writable = True\<rparr>\<rparr>,
      [Log Info, Log Info, Log Info, Log Debug, SpawnFFmpeg, Log Info])"

definition onClose :: "int \<Rightarrow> streamer \<Rightarrow> streamer \<times> effect list" where
  "onClose code s =
     (let s1 = s\<lparr>ffmpeg := None\<rparr> in
      if isRunning s1 then (s1, [Log Warn, Log Info, SetTimeout 1000 Relaunch])
      else (s1, [Log Warn]))"

subsection \<open>Sending frames\<close>

text \<open>
  \<open>sendFrameToFFmpeg\<close> returns \<open>false\<close>, \<open>true\<close>, or (after a write that reported a full
  buffer) a promise that the next \<open>'drain'\<close> resolves with \<open>true\<close>.
\<close>

datatype send_result = Returned bool | DrainPromise

definition sendFrameToFFmpeg ::
  "frame \<Rightarrow> write_env \<Rightarrow> streamer \<Rightarrow> send_result \<times> streamer \<times> effect list" where
  "sendFrameToFFmpeg frameData w s =
     (if encoder_not_ready s then (Returned False, s, [])
      else
        (case w of
           WriteThrows \<Rightarrow> (Returned False, s, [StdinWrite frameData w, Log Err])
         | _ \<Rightarrow>
            (let s1 = s\<lparr>frameCount := frameCount s + 1\<rparr>;
                 fx = StdinWrite frameData w #
                        (if frameCount s1 mod 30 = 0 then [Log Info] else [])
             in if w = WriteBufferFull then (DrainPromise, s1, fx @ [OnceDrain])
                else (Returned True, s1, fx))))"

text \<open>
  \<open>captureAndSendFrame\<close> (the fallback path of \<open>src/index.js\<close>): a screenshot of the page,
  then \<open>sendFrameToFFmpeg\<close>; being \<open>async\<close>, it hands a returned promise on to its caller.
\<close>

datatype screenshot_env = ScreenshotThrows | Screenshot frame

definition captureAndSendFrame ::
  "screenshot_env \<Rightarrow> write_env \<Rightarrow> streamer \<Rightarrow> send_result \<times> streamer \<times> effect list" where
  "captureAndSendFrame shot w s =
     (if page s = None \<or> encoder_not_ready s then (Returned False, s, [])
      else
        (case shot of
           ScreenshotThrows \<Rightarrow> (Returned False, s, [PageScreenshot, Log Err])
         | Screenshot f \<Rightarrow>
            (case sendFrameToFFmpeg f w s of (r, s', fx) \<Rightarrow> (r, s', PageScreenshot # fx))))"

text \<open>
  The \<open>Page.screencastFrame\<close> handler. \<open>data\<close> is the frame as \<open>Buffer.from\<close> decodes it.
  The result of \<open>sendFrameToFFmpeg\<close> is dropped; the acknowledgment is sent next, and a
  failure of it (or a \<open>null\<close> session) is caught and logged.
\<close>

record screencast_frame =
  data :: frame
  sessionId :: nat

definition onScreencastFrame ::
  "screencast_frame \<Rightarrow> write_env \<Rightarrow> bool \<Rightarrow> streamer \<Rightarrow> streamer \<times> effect list" where
  "onScreencastFrame fr w ack_ok s =
     (if \<not> isRunning s \<or> encoder_not_ready s then (s, [])
      else
        (case sendFrameToFFmpeg (data fr) w s of
           (r, s1, fx) \<Rightarrow>
             if cdpSession s1 = None then (s1, fx @ [Log Err])
             else if ack_ok then (s1, fx @ [CdpSend (ScreencastFrameAck (sessionId fr))])
             else (s1, fx @ [CdpSend (ScreencastFrameAck (sessionId fr)), Log Err])))"

subsection \<open>stopScreencast and stop\<close>

text \<open>
  \<open>stopScreencast\<close> swallows every error of the two CDP calls. \<open>stop\<close> awaits it, ends the
  pipe and signals the subprocess, then awaits \<open>browser.close()\<close>, which is not guarded:
  when it rejects, \<open>stop\<close> rejects and \<open>browser\<close> and \<open>page\<close> keep their values.
\<close>

datatype cdp_stop_env = CdpStopOk | CdpStopThrows | CdpDetachThrows

record stop_env =
  cdp_stop :: cdp_stop_env
  browser_close_ok :: bool

definition stopScreencast :: "cdp_stop_env \<Rightarrow> streamer \<Rightarrow> streamer \<times> effect list" where
  "stopScreencast env s =
     (case cdpSession s of
        None \<Rightarrow> (s, [])
      | Some c \<Rightarrow>
          (s\<lparr>cdpSession := None\<rparr>,
           (case env of
              CdpStopThrows \<Rightarrow> [CdpSend StopScreencast]
            | _ \<Rightarrow> [CdpSend StopScreencast, CdpDetach])))"

definition stop :: "stop_env \<Rightarrow> streamer \<Rightarrow> (error + unit) \<times> streamer \<times> effect list" where
  "stop env s =
     (let s1 = s\<lparr>isRunning := False\<rparr>;
          (s2, fx2) = stopScreencast (cdp_stop env) s1;
          (s3, fx3) = (case ffmpeg s2 of
                         None \<Rightarrow> (s2, [])
                       | Some p \<Rightarrow> (s2\<lparr>ffmpeg := None\<rparr>, [StdinEnd, Kill SIGTERM]));
          fx = Log Info # fx2 @ fx3
      in case browser s3 of
           None \<Rightarrow> (Inr (), s3, fx @ [Log Info])
         | Some b \<Rightarrow>
             if browser_close_ok env
             then (Inr (), s3\<lparr>browser := None, page := None\<rparr>, fx @ [BrowserClose, Log Info])
             else (Inl BrowserCloseError, s3, fx @ [BrowserClose]))"

section \<open>The event loop\<close>

text \<open>
  Around the object: the relaunch timers that are armed and have not fired (their delays,
  oldest first), the number of encoder subprocesses spawned and not yet closed, the exit
  code once \<open>process.exit\<close> has been called, and everything done so far.
\<close>

record world =
  obj :: streamer
  timers :: "int list"
  live_procs :: nat
  exit_code :: "int option"
  trace :: "effect list"

fun armed :: "effect list \<Rightarrow> int list" where
  "armed [] = []"
| "armed (SetTimeout d a # fx) = d # armed fx"
| "armed (x # fx) = armed fx"

fun spawned :: "effect list \<Rightarrow> nat" where
  "spawned [] = 0"
| "spawned (SpawnFFmpeg # fx) = Suc (spawned fx)"
| "spawned (x # fx) = spawned fx"

text \<open>A method ran on the object: its timers are armed, its effects recorded.\<close>

definition emit :: "streamer \<times> effect list \<Rightarrow> world \<Rightarrow> world" where
  "emit r w =
     w\<lparr> obj := fst r,
        timers := timers w @ armed (snd r),
        live_procs := live_procs w + spawned (snd r),
        trace := trace w @ snd r \<rparr>"

definition new_world :: "int \<Rightarrow> world" where
  "new_world now =
     \<lparr> obj = new_WebsiteStreamer now, timers = [], live_procs = 0,
       exit_code = None, trace = [] \<rparr>"

text \<open>
  What the runtime can deliver between two turns of the program: the \<open>'close'\<close> of a live
  subprocess, the expiry of the oldest relaunch timer, a screencast frame (with what the
  write and the acknowledgment will do), a \<open>'drain'\<close> of the pipe (its only listener
  resolves a promise), a call of \<open>stop()\<close>, and a termination signal (the \<open>shutdown\<close>
  closure of \<open>main\<close>: \<open>stop()\<close>, then \<open>process.exit(0)\<close>; when \<open>stop()\<close> rejects, the
  rejection is logged by the \<open>unhandledRejection\<close> handler and the process lives on).
  Nothing is delivered once the process has exited, a subprocess that is not alive does
  not close, and frames come only from an attached session.

  A handler runs to completion before the next event is delivered. Events are delivered
  while the program waits in one of its loops (the 1000 ms of the keep-alive loop, the
  2000 ms of \<open>start\<close>, the restart delay of \<open>main\<close>); a method between two such
  waits is one step, with what its awaited calls answer given by its environment.
\<close>

datatype event =
    EncoderClose int
  | RelaunchTimer
  | ScreencastFrame screencast_frame write_env bool
  | StdinDrain
  | StopCall stop_env
  | Shutdown signal stop_env

definition handle_event :: "event \<Rightarrow> world \<Rightarrow> world" where
  "handle_event ev w =
     (case ev of
        EncoderClose code \<Rightarrow>
          (if live_procs w = 0 then w
           else emit (onClose code (obj w)) (w\<lparr>live_procs := live_procs w - 1\<rparr>))
      | RelaunchTimer \<Rightarrow>
          (case timers w of
             [] \<Rightarrow> w
           | d # ds \<Rightarrow> emit (startFFmpeg (obj w)) (w\<lparr>timers := ds\<rparr>))
      | ScreencastFrame fr wr ack \<Rightarrow>
          (if cdpSession (obj w) = None then w
           else emit (onScreencastFrame fr wr ack (obj w)) w)
      | StdinDrain \<Rightarrow> w
      | StopCall env \<Rightarrow> (case stop env (obj w) of (r, s, fx) \<Rightarrow> emit (s, fx) w)
      | Shutdown sig env \<Rightarrow>
          (case stop env (obj w) of
             (Inr u, s, fx) \<Rightarrow>
               (emit (s, Log Info # fx @ [ProcessExit 0]) w)\<lparr>exit_code := Some 0\<rparr>
           | (Inl e, s, fx) \<Rightarrow> emit (s, Log Info # fx @ [Log Err]) w))"

definition step :: "event \<Rightarrow> world \<Rightarrow> world" where
  "step ev w = (if exit_code w = None then handle_event ev w else w)"

fun run_events :: "event list \<Rightarrow> world \<Rightarrow> world" where
  "run_events [] w = w"
| "run_events (ev # evs) w = run_events evs (step ev w)"

section \<open>startScreencast, start and main\<close>

text \<open>
  The result of an \<open>async\<close> method that contains the keep-alive loop: it rejects, it
  resolves, or it is still in the loop when the observed ticks end.
\<close>

datatype start_result = Rejected error | Resolved | Pending

text \<open>
  One turn of \<open>while (this.isRunning)\<close> in \<open>startScreencast\<close>: the test, then
  \<open>refreshPageIfNeeded\<close>, the statistics line, and a 1000 ms wait during which the
  runtime delivers events. A tick gives the clock, what a reload would do, and the events
  of the wait.
\<close>

record tick =
  tick_now :: int
  tick_load :: load_env
  tick_events :: "event list"

definition stats_line :: "config \<Rightarrow> streamer \<Rightarrow> effect list" where
  "stats_line cfg s =
     (if int (frameCount s) mod \<bar>FPS cfg * 30\<bar> = 0 \<and> frameCount s > 0 then [Log Info] else [])"

fun screencast_loop :: "config \<Rightarrow> tick list \<Rightarrow> world \<Rightarrow> start_result \<times> world" where
  "screencast_loop cfg [] w = (if isRunning (obj w) then Pending else Resolved, w)"
| "screencast_loop cfg (t # ts) w =
     (if exit_code w \<noteq> None then (Pending, w)
      else if \<not> isRunning (obj w) then (Resolved, w)
      else
        (case refreshPageIfNeeded cfg (tick_now t) (tick_load t) (obj w) of
           (Inl e, s, fx) \<Rightarrow> (Rejected e, emit (s, fx) w)
         | (Inr u, s, fx) \<Rightarrow>
             screencast_loop cfg ts
               (run_events (tick_events t)
                  (emit (s, fx @ stats_line cfg s @ [Sleep 1000]) w))))"

datatype cdp_start_env = CdpCreateThrows | CdpStartThrows | CdpStarted

definition startScreencast ::
  "config \<Rightarrow> cdp_start_env \<Rightarrow> tick list \<Rightarrow> world \<Rightarrow> start_result \<times> world" where
  "startScreencast cfg env ts w =
     (let s = obj w in
      if page s = None then (Rejected TypeError, emit (s, [Log Info]) w)
      else
        (case env of
           CdpCreateThrows \<Rightarrow> (Rejected CdpError, emit (s, [Log Info, CdpCreate]) w)
         | CdpStartThrows \<Rightarrow>
             (Rejected CdpError,
              emit (s\<lparr>cdpSession := Some CDPSession\<rparr>,
                    [Log Info, CdpCreate, CdpSend StartScreencast]) w)
         | CdpStarted \<Rightarrow>
             screencast_loop cfg ts
               (emit (s\<lparr>cdpSession := Some CDPSession, isRunning := True\<rparr>,
                      [Log Info, CdpCreate, CdpSend StartScreencast, Log Info]) w)))"

text \<open>
  \<open>start\<close>: browser, page, encoder, a 2000 ms wait (with the events delivered during it),
  then \<open>startScreencast\<close>. Its \<open>catch\<close> logs, awaits \<open>stop()\<close> and throws the error again;
  when that \<open>stop()\<close> rejects, its error is the one thrown.
\<close>

record start_env =
  se_browser :: browser_env
  se_load :: load_env
  se_events :: "event list"
  se_cdp :: cdp_start_env
  se_ticks :: "tick list"
  se_stop :: stop_env

definition start_try :: "config \<Rightarrow> start_env \<Rightarrow> world \<Rightarrow> start_result \<times> world" where
  "start_try cfg env w =
     (let banner = [Log Info, Log Info, Log Info, Log Info] in
      case startBrowser (se_browser env) (obj w) of
        (Inl e, s, fx) \<Rightarrow> (Rejected e, emit (s, banner @ fx) w)
      | (Inr u, s, fx) \<Rightarrow>
          (case loadPage (se_load env) s of
             (Inl e, s1, fx1) \<Rightarrow> (Rejected e, emit (s1, banner @ fx @ fx1) w)
           | (Inr u1, s1, fx1) \<Rightarrow>
               (case startFFmpeg s1 of
                  (s2, fx2) \<Rightarrow>
                    (let w1 = run_events (se_events env)
                                (emit (s2, banner @ fx @ fx1 @ fx2 @ [Sleep 2000]) w)
                     in if exit_code w1 \<noteq> None then (Pending, w1)
                        else startScreencast cfg (se_cdp env) (se_ticks env) w1))))"

definition start :: "config \<Rightarrow> start_env \<Rightarrow> world \<Rightarrow> start_result \<times> world" where
  "start cfg env w =
     (case start_try cfg env w of
        (Rejected e, w1) \<Rightarrow>
          (if exit_code w1 \<noteq> None then (Pending, w1)
           else
             (case stop (se_stop env) (obj w1) of
                (Inl e', s, fx) \<Rightarrow> (Rejected e', emit (s, Log Err # fx) w1)
              | (Inr u, s, fx) \<Rightarrow> (Rejected e, emit (s, Log Err # fx) w1)))
      | (r, w1) \<Rightarrow> (r, w1))"

text \<open>
  \<open>main\<close>: \<open>validateConfig()\<close> first; then the object, the signal handlers and
  \<open>while (true)\<close>. A failed attempt is logged, \<open>stop()\<close> is awaited, and the loop waits
  \<open>RESTART_DELAY\<close> (with the events delivered meanwhile) before the next attempt. An
  error that leaves \<open>main\<close> (from \<open>validateConfig\<close>, or from the \<open>stop()\<close> of the
  \<open>catch\<close>) reaches \<open>main().catch\<close>: one log line and \<open>process.exit(1)\<close>.
\<close>

record attempt =
  at_start :: start_env
  at_stop :: stop_env
  at_events :: "event list"

datatype process_result = Exited int | StillRunning

fun main_loop :: "config \<Rightarrow> attempt list \<Rightarrow> world \<Rightarrow> process_result \<times> world" where
  "main_loop cfg [] w =
     ((case exit_code w of Some c \<Rightarrow> Exited c | None \<Rightarrow> StillRunning), w)"
| "main_loop cfg (a # as) w =
     (case exit_code w of
        Some c \<Rightarrow> (Exited c, w)
      | None \<Rightarrow>
         (case start cfg (at_start a) w of
            (Pending, w1) \<Rightarrow>
              ((case exit_code w1 of Some c \<Rightarrow> Exited c | None \<Rightarrow> StillRunning), w1)
          | (Resolved, w1) \<Rightarrow> main_loop cfg as w1
          | (Rejected e, w1) \<Rightarrow>
              (case stop (at_stop a) (obj w1) of
                 (Inl e', s, fx) \<Rightarrow>
                   (Exited 1,
                    (emit (s, Log Err # fx @ [Log Err, ProcessExit 1]) w1)
                      \<lparr>exit_code := Some 1\<rparr>)
               | (Inr u, s, fx) \<Rightarrow>
                   main_loop cfg as
                     (run_events (at_events a)
                        (emit (s, Log Err # fx @ [Log Info, Sleep (RESTART_DELAY cfg)]) w1)))))"

text \<open>
  The whole program. The streamer exists only after \<open>validateConfig\<close> has returned, so
  the result carries the world only then.
\<close>

definition main ::
  "config \<Rightarrow> int \<Rightarrow> attempt list \<Rightarrow> process_result \<times> world option \<times> effect list" where
  "main cfg now as =
     (case validateConfig cfg of
        (Inl e, fx) \<Rightarrow> (Exited 1, None, fx @ [Log Err, ProcessExit 1])
      | (Inr u, fx) \<Rightarrow>
          (case main_loop cfg as
                  (emit (new_WebsiteStreamer now, fx @ [OnSignal SIGTERM, OnSignal SIGINT])
                        (new_world now)) of
             (r, w) \<Rightarrow> (r, Some w, trace w)))"

section \<open>The polled variant: a screenshot loop\<close>

text \<open>
  The earlier version of the program captures with \<open>page.screenshot()\<close> on a timer. Its
  \<open>captureAndSendFrame\<close> writes with a callback and returns a promise that the callback
  settles (\<open>false\<close> on a write error, else \<open>true\<close> after \<open>frameCount++\<close>) or, after a write
  that reported a full buffer, the \<open>'drain'\<close> event. The pipe answers in one of four
  ways: the write is accepted and completes, is accepted and fails, or the buffer is
  full and then drains (the runtime emits \<open>'drain'\<close> and calls the callback in the same
  turn), or the buffer is full and the write fails.

  While the screenshot is awaited the encoder may close; its \<open>'close'\<close> handler sets
  \<open>this.ffmpeg = null\<close>, the write inside the promise then throws, and since the promise
  is returned without \<open>await\<close> the surrounding \<open>try\<close> does not catch it:
  \<open>captureAndSendFrame\<close> rejects.
\<close>

datatype pipe_env = Flushed | FlushFailed | FullThenDrained | FullThenFailed

datatype capture_env = CaptureThrows | Captured frame "int option" pipe_env

definition captureAndSendFrame_polled ::
  "capture_env \<Rightarrow> streamer \<Rightarrow> (error + bool) \<times> streamer \<times> effect list" where
  "captureAndSendFrame_polled env s =
     (if page s = None \<or> encoder_not_ready s then
        (Inr False, s, if frameCount s = 0 then [Log Warn] else [])
      else
        (case env of
           CaptureThrows \<Rightarrow> (Inr False, s, [PageScreenshot, Log Err])
         | Captured f closed p \<Rightarrow>
            (let first = (if frameCount s = 0 then [Log Info] else []) in
             case closed of
               Some code \<Rightarrow>
                 (case onClose code s of
                    (s1, fxc) \<Rightarrow> (Inl TypeError, s1, PageScreenshot # fxc @ first))
             | None \<Rightarrow>
                 (let s1 = s\<lparr>frameCount := frameCount s + 1\<rparr>;
                      tally = (if frameCount s1 mod 30 = 0 then [Log Info] else [])
                  in case p of
                       Flushed \<Rightarrow>
                         (Inr True, s1,
                          PageScreenshot # first @ StdinWrite f WriteAccepted # tally)
                     | FlushFailed \<Rightarrow>
                         (Inr False, s,
                          PageScreenshot # first @ [StdinWrite f WriteAccepted, Log Err])
                     | FullThenDrained \<Rightarrow>
                         (Inr True, s1,
                          PageScreenshot # first @
                            [StdinWrite f WriteBufferFull, Log Warn, OnceDrain,
                             AwaitEvent Drain] @ tally)
                     | FullThenFailed \<Rightarrow>
                         (Inr False, s,
                          PageScreenshot # first @
                            [StdinWrite f WriteBufferFull, Log Warn, OnceDrain, Log Err])))))"

text \<open>
  \<open>startFFmpeg\<close> and \<open>stop\<close> of this version (no audio line, no CDP session); its
  \<open>'close'\<close> handler is the one above, \<open>onClose\<close>.
\<close>

definition startFFmpeg_polled :: "streamer \<Rightarrow> streamer \<times> effect list" where
  "startFFmpeg_polled s =
     (s\<lparr>ffmpeg := Some \<lparr>stdin_writable = True\<rparr>\<rparr>,
      [Log Info, Log Info, Log Debug, SpawnFFmpeg, Log Info])"

definition stop_polled :: "bool \<Rightarrow> streamer \<Rightarrow> (error + unit) \<times> streamer \<times> effect list" where
  "stop_polled close_ok s =
     (let s1 = s\<lparr>isRunning := False\<rparr>;
          (s2, fx2) = (case ffmpeg s1 of
                         None \<Rightarrow> (s1, [])
                       | Some p \<Rightarrow> (s1\<lparr>ffmpeg := None\<rparr>, [StdinEnd, Kill SIGTERM]))
      in case browser s2 of
           None \<Rightarrow> (Inr (), s2, Log Info # fx2 @ [Log Info])
         | Some b \<Rightarrow>
             if close_ok
             then (Inr (), s2\<lparr>browser := None, page := None\<rparr>,
                   Log Info # fx2 @ [BrowserClose, Log Info])
             else (Inl BrowserCloseError, s2, Log Info # fx2 @ [BrowserClose]))"

text \<open>The events of the two older versions: a close, a timer expiry, a call of \<open>stop()\<close>.\<close>

datatype proc_ev = ProcClose int | TimerFires | Stop bool

definition step_polled :: "proc_ev \<Rightarrow> world \<Rightarrow> world" where
  "step_polled ev w =
     (case ev of
        ProcClose code \<Rightarrow>
          (if live_procs w = 0 then w
           else emit (onClose code (obj w)) (w\<lparr>live_procs := live_procs w - 1\<rparr>))
      | TimerFires \<Rightarrow>
          (case timers w of
             [] \<Rightarrow> w
           | d # ds \<Rightarrow> emit (startFFmpeg_polled (obj w)) (w\<lparr>timers := ds\<rparr>))
      | Stop close_ok \<Rightarrow>
          (case stop_polled close_ok (obj w) of (r, s, fx) \<Rightarrow> emit (s, fx) w))"

fun run_polled :: "proc_ev list \<Rightarrow> world \<Rightarrow> world" where
  "run_polled [] w = w"
| "run_polled (ev # evs) w = run_polled evs (step_polled ev w)"

text \<open>
  \<open>startCapturing\<close>: \<open>isRunning = true\<close>, then per turn a capture, a warning when it
  failed, \<open>refreshPageIfNeeded\<close>, the statistics line, and a wait of
  \<open>max(0, FRAME_INTERVAL - elapsed)\<close> when that is positive. An exception of the capture
  or of the refresh leaves the loop.
\<close>

record capture_tick =
  ct_capture :: capture_env
  ct_now :: int
  ct_load :: load_env
  ct_elapsed :: int
  ct_events :: "proc_ev list"

definition closed_during :: "capture_env \<Rightarrow> nat" where
  "closed_during c = (case c of Captured f (Some code) p \<Rightarrow> 1 | _ \<Rightarrow> 0)"

fun capture_loop :: "config \<Rightarrow> capture_tick list \<Rightarrow> world \<Rightarrow> start_result \<times> world" where
  "capture_loop cfg [] w = (if isRunning (obj w) then Pending else Resolved, w)"
| "capture_loop cfg (t # ts) w =
     (if \<not> isRunning (obj w) then (Resolved, w)
      else
        (case captureAndSendFrame_polled (ct_capture t) (obj w) of
           (Inl e, s, fx) \<Rightarrow>
             (Rejected e,
              emit (s, fx) (w\<lparr>live_procs := live_procs w - closed_during (ct_capture t)\<rparr>))
         | (Inr success, s, fx) \<Rightarrow>
             (let skipped = (if \<not> success \<and> isRunning s then [Log Warn] else []) in
              case refreshPageIfNeeded cfg (ct_now t) (ct_load t) s of
                (Inl e, s1, fx1) \<Rightarrow> (Rejected e, emit (s1, fx @ skipped @ fx1) w)
              | (Inr u, s1, fx1) \<Rightarrow>
                  (let delay = max 0 (FRAME_INTERVAL cfg - ct_elapsed t);
                       pause = (if delay > 0 then [Sleep delay] else [])
                   in capture_loop cfg ts
                        (run_polled (ct_events t)
                           (emit (s1, fx @ skipped @ fx1 @ stats_line cfg s1 @ pause) w))))))"

definition startCapturing ::
  "config \<Rightarrow> capture_tick list \<Rightarrow> world \<Rightarrow> start_result \<times> world" where
  "startCapturing cfg ts w =
     capture_loop cfg ts (emit ((obj w)\<lparr>isRunning := True\<rparr>, [Log Info]) w)"

section \<open>The x11grab variant: the encoder reads the display\<close>

text \<open>
  In version 2.0 the encoder grabs the virtual display itself and no frame passes through
  the program. \<open>startFFmpeg\<close> sets \<open>isRunning\<close>; the \<open>'close'\<close> handler keeps the handle
  and relaunches after 2000 ms; \<open>refreshPageIfNeeded\<close> reloads the page in place, logs a
  failure instead of throwing, and stamps \<open>lastRefreshTime\<close> either way; \<open>stop\<close> signals
  the encoder and closes the browser.
\<close>

definition startFFmpeg_x11 :: "streamer \<Rightarrow> streamer \<times> effect list" where
  "startFFmpeg_x11 s =
     (s\<lparr>ffmpeg := Some \<lparr>stdin_writable = True\<rparr>, isRunning := True\<rparr>,
      [Log Info, Log Info, Log Info, Log Debug, SpawnFFmpeg, Log Info])"

definition onClose_x11 :: "int \<Rightarrow> streamer \<Rightarrow> streamer \<times> effect list" where
  "onClose_x11 code s =
     (if isRunning s then (s, [Log Warn, Log Info, SetTimeout 2000 Relaunch])
      else (s, [Log Warn]))"

definition refreshPageIfNeeded_x11 ::
  "config \<Rightarrow> int \<Rightarrow> load_env \<Rightarrow> streamer \<Rightarrow> streamer \<times> effect list" where
  "refreshPageIfNeeded_x11 cfg now env s =
     (let elapsed = now - lastRefreshTime s in
      if elapsed \<ge> PAGE_REFRESH_INTERVAL cfg then
        (s\<lparr>lastRefreshTime := finished_at env\<rparr>,
         Log Info #
           (if page s = None then [Log Err]
            else if nav_ok env then [PageReload, Sleep 10000, Log Info]
            else [PageReload, Log Err]))
      else (s, []))"

definition stop_x11 :: "bool \<Rightarrow> streamer \<Rightarrow> (error + unit) \<times> streamer \<times> effect list" where
  "stop_x11 close_ok s =
     (let s1 = s\<lparr>isRunning := False\<rparr>;
          (s2, fx2) = (case ffmpeg s1 of
                         None \<Rightarrow> (s1, [])
                       | Some p \<Rightarrow> (s1\<lparr>ffmpeg := None\<rparr>, [Kill SIGTERM]))
      in case browser s2 of
           None \<Rightarrow> (Inr (), s2, Log Info # fx2 @ [Log Info])
         | Some b \<Rightarrow>
             if close_ok
             then (Inr (), s2\<lparr>browser := None\<rparr>, Log Info # fx2 @ [BrowserClose, Log Info])
             else (Inl BrowserCloseError, s2, Log Info # fx2 @ [BrowserClose]))"

definition step_x11 :: "proc_ev \<Rightarrow> world \<Rightarrow> world" where
  "step_x11 ev w =
     (case ev of
        ProcClose code \<Rightarrow>
          (if live_procs w = 0 then w
           else emit (onClose_x11 code (obj w)) (w\<lparr>live_procs := live_procs w - 1\<rparr>))
      | TimerFires \<Rightarrow>
          (case timers w of
             [] \<Rightarrow> w
           | d # ds \<Rightarrow> emit (startFFmpeg_x11 (obj w)) (w\<lparr>timers := ds\<rparr>))
      | Stop close_ok \<Rightarrow>
          (case stop_x11 close_ok (obj w) of (r, s, fx) \<Rightarrow> emit (s, fx) w))"

fun run_x11 :: "proc_ev list \<Rightarrow> world \<Rightarrow> world" where
  "run_x11 [] w = w"
| "run_x11 (ev # evs) w = run_x11 evs (step_x11 ev w)"

text \<open>
  \<open>runMainLoop\<close>: one log line, then \<open>while (this.isRunning)\<close>, per turn the refresh
  (inside \<open>try\<close>) and a 10000 ms wait with the events delivered during it.
\<close>

record tick_x11 =
  xt_now :: int
  xt_load :: load_env
  xt_events :: "proc_ev list"

fun watch_loop_x11 :: "config \<Rightarrow> tick_x11 list \<Rightarrow> world \<Rightarrow> start_result \<times> world" where
  "watch_loop_x11 cfg [] w = (if isRunning (obj w) then Pending else Resolved, w)"
| "watch_loop_x11 cfg (t # ts) w =
     (if \<not> isRunning (obj w) then (Resolved, w)
      else
        (case refreshPageIfNeeded_x11 cfg (xt_now t) (xt_load t) (obj w) of
           (s, fx) \<Rightarrow>
             watch_loop_x11 cfg ts
               (run_x11 (xt_events t) (emit (s, fx @ [Sleep 10000]) w))))"

definition runMainLoop_x11 ::
  "config \<Rightarrow> tick_x11 list \<Rightarrow> world \<Rightarrow> start_result \<times> world" where
  "runMainLoop_x11 cfg ts w = watch_loop_x11 cfg ts (emit (obj w, [Log Info]) w)"

section \<open>Observers and scenarios\<close>

text \<open>
  \<open>stop()\<close> called twice, the second call made whatever the first did, as the program
  does after a failed run (the \<open>catch\<close> of \<open>start\<close>, then the \<open>catch\<close> of \<open>main\<close>):
  the outcome of each call and the object at the end.
\<close>

definition stop_twice ::
  "stop_env \<Rightarrow> stop_env \<Rightarrow> streamer \<Rightarrow> (error + unit) \<times> (error + unit) \<times> streamer" where
  "stop_twice e1 e2 s =
     (case stop e1 s of
        (r1, s1, fx1) \<Rightarrow> (case stop e2 s1 of (r2, s2, fx2) \<Rightarrow> (r1, r2, s2)))"

text \<open>The page belongs to a browser: \<open>page\<close> is set after \<open>browser\<close> and cleared with it.\<close>

definition page_owned :: "streamer \<Rightarrow> bool" where
  "page_owned s = (browser s = None \<longrightarrow> page s = None)"

text \<open>The session age at a clock reading, and the frames handed to the encoder in a trace.\<close>

definition age :: "int \<Rightarrow> streamer \<Rightarrow> int" where
  "age now s = now - lastRefreshTime s"

fun written :: "effect list \<Rightarrow> nat" where
  "written [] = 0"
| "written (StdinWrite f WriteThrows # fx) = written fx"
| "written (StdinWrite f w # fx) = Suc (written fx)"
| "written (x # fx) = written fx"

text \<open>
  Three facts that every method preserves: the page belongs to a browser; a running relay
  has a page; and the frame counter moves only by the writes that returned. \<open>keeps\<close>
  states them for one call on the object, \<open>progress\<close> between two worlds, where the
  writes are those added to the trace.
\<close>

definition running_has_page :: "streamer \<Rightarrow> bool" where
  "running_has_page s = (isRunning s \<longrightarrow> page s \<noteq> None)"

definition keeps :: "streamer \<Rightarrow> streamer \<Rightarrow> effect list \<Rightarrow> bool" where
  "keeps s s' fx =
     ((page_owned s \<longrightarrow> page_owned s') \<and>
      (running_has_page s \<longrightarrow> running_has_page s') \<and>
      frameCount s' = frameCount s + written fx)"

definition progress :: "world \<Rightarrow> world \<Rightarrow> bool" where
  "progress w w' =
     ((page_owned (obj w) \<longrightarrow> page_owned (obj w')) \<and>
      (running_has_page (obj w) \<longrightarrow> running_has_page (obj w')) \<and>
      frameCount (obj w) \<le> frameCount (obj w') \<and>
      frameCount (obj w') + written (trace w) = frameCount (obj w) + written (trace w'))"

text \<open>An environment with only the stream key set, and one with nothing set.\<close>

definition env_key_only :: environment where
  "env_key_only =
     \<lparr> env_STREAM_KEY = Some ''live-key'', env_FPS = None, env_RESTART_DELAY = None,
       env_PAGE_REFRESH_INTERVAL = None \<rparr>"

definition env_empty :: environment where
  "env_empty =
     \<lparr> env_STREAM_KEY = None, env_FPS = None, env_RESTART_DELAY = None,
       env_PAGE_REFRESH_INTERVAL = None \<rparr>"

text \<open>
  A streamer in steady state (browser, page, session and encoder live, 118 frames sent,
  page loaded at time 0), and the world around it with its one subprocess.
\<close>

definition streaming :: streamer where
  "streaming =
     \<lparr> browser = Some Browser, page = Some Page, cdpSession = Some CDPSession,
       ffmpeg = Some \<lparr>stdin_writable = True\<rparr>, isRunning = True, frameCount = 118,
       lastRefreshTime = 0 \<rparr>"

definition streaming_world :: world where
  "streaming_world =
     \<lparr> obj = streaming, timers = [], live_procs = 1, exit_code = None, trace = [] \<rparr>"

definition stop_ok :: stop_env where
  "stop_ok = \<lparr> cdp_stop = CdpStopOk, browser_close_ok = True \<rparr>"

text \<open>
  A browser that cannot be closed, a first attempt in which the page fails to load with
  such a browser, and everything the program then does.
\<close>

definition close_fails :: stop_env where
  "close_fails = \<lparr> cdp_stop = CdpStopOk, browser_close_ok = False \<rparr>"

definition unclosable_attempt :: attempt where
  "unclosable_attempt =
     \<lparr> at_start =
         \<lparr> se_browser = BrowserReady, se_load = \<lparr> nav_ok = False, finished_at = 60000 \<rparr>,
           se_events = [], se_cdp = CdpStarted, se_ticks = [], se_stop = close_fails \<rparr>,
       at_stop = close_fails, at_events = [] \<rparr>"

definition unclosable_trace :: "effect list" where
  "unclosable_trace =
     [Log Info, Log Info, Log Info, Log Info, Log Info, OnSignal SIGTERM, OnSignal SIGINT,
      Log Info, Log Info, Log Info, Log Info,
      Log Info, BrowserLaunch, BrowserNewPage, PageSetup, Log Info,
      Log Info, PageGoto, Log Err,
      Log Err, Log Info, BrowserClose,
      Log Err, Log Info, BrowserClose, Log Err, ProcessExit 1]"

text \<open>The page loads of a trace (\<open>page.goto\<close> calls).\<close>

definition reloads :: "effect list \<Rightarrow> nat" where
  "reloads fx = count_list fx PageGoto"

text \<open>
  A first attempt in which everything comes up: the page is loaded at 3500 ms, then the
  loop runs the given ticks. \<open>jpeg n\<close> is a screencast frame of session 7.
\<close>

definition loaded :: "int \<Rightarrow> load_env" where
  "loaded t = \<lparr> nav_ok = True, finished_at = t \<rparr>"

definition boot :: "tick list \<Rightarrow> start_env" where
  "boot ts =
     \<lparr> se_browser = BrowserReady, se_load = loaded 3500, se_events = [], se_cdp = CdpStarted,
       se_ticks = ts, se_stop = stop_ok \<rparr>"

definition one_attempt :: "tick list \<Rightarrow> attempt" where
  "one_attempt ts = \<lparr> at_start = boot ts, at_stop = stop_ok, at_events = [] \<rparr>"

definition jpeg :: "nat \<Rightarrow> screencast_frame" where
  "jpeg n = \<lparr> data = [255, 216, n], sessionId = 7 \<rparr>"

text \<open>
  Two turns of the loop an hour apart, a frame arriving after each: the second turn finds
  the page older than the default interval of 3600000 ms.
\<close>

definition hourly_ticks :: "tick list" where
  "hourly_ticks =
     [\<lparr> tick_now = 6000, tick_load = loaded 9500,
        tick_events = [ScreencastFrame (jpeg 1) WriteAccepted True] \<rparr>,
      \<lparr> tick_now = 3603500, tick_load = loaded 3607000,
        tick_events = [ScreencastFrame (jpeg 2) WriteAccepted True] \<rparr>]"

text \<open>
  The events that are an exit of the encoder or the expiry of a relaunch timer, and a run
  at 2 frames per second in which the encoder exits four times within four turns of the
  loop, each relaunch being followed by the next exit.
\<close>

definition exit_or_relaunch :: "event \<Rightarrow> bool" where
  "exit_or_relaunch ev = (case ev of EncoderClose c \<Rightarrow> True | RelaunchTimer \<Rightarrow> True | _ \<Rightarrow> False)"

definition env_two_fps :: environment where
  "env_two_fps =
     \<lparr> env_STREAM_KEY = Some ''live-key'', env_FPS = Some 2, env_RESTART_DELAY = None,
       env_PAGE_REFRESH_INTERVAL = None \<rparr>"

definition crash_ticks :: "tick list" where
  "crash_ticks =
     [\<lparr> tick_now = 6000, tick_load = loaded 9500, tick_events = [EncoderClose 1] \<rparr>,
      \<lparr> tick_now = 7000, tick_load = loaded 10500,
        tick_events = [RelaunchTimer, EncoderClose 1] \<rparr>,
      \<lparr> tick_now = 8000, tick_load = loaded 11500,
        tick_events = [RelaunchTimer, EncoderClose 1] \<rparr>,
      \<lparr> tick_now = 9000, tick_load = loaded 12500,
        tick_events = [RelaunchTimer, EncoderClose 1] \<rparr>]"

text \<open>
  The polled version at 6 frames per second, about to enter \<open>startCapturing\<close>, and three
  turns in each of which \<open>page.screenshot()\<close> throws.
\<close>

definition env_six_fps :: environment where
  "env_six_fps =
     \<lparr> env_STREAM_KEY = Some ''live-key'', env_FPS = Some 6, env_RESTART_DELAY = None,
       env_PAGE_REFRESH_INTERVAL = None \<rparr>"

definition polling_world :: world where
  "polling_world =
     \<lparr> obj = \<lparr> browser = Some Browser, page = Some Page, cdpSession = None,
               ffmpeg = Some \<lparr>stdin_writable = True\<rparr>, isRunning = False, frameCount = 0,
               lastRefreshTime = 3500 \<rparr>,
       timers = [], live_procs = 1, exit_code = None, trace = [] \<rparr>"

definition failed_capture :: "int \<Rightarrow> capture_tick" where
  "failed_capture t =
     \<lparr> ct_capture = CaptureThrows, ct_now = t, ct_load = loaded (t + 3500), ct_elapsed = 40,
       ct_events = [] \<rparr>"

definition three_failures :: "capture_tick list" where
  "three_failures = [failed_capture 6000, failed_capture 6166, failed_capture 6332]"

text \<open>The polled world once \<open>startCapturing\<close> has set \<open>isRunning\<close>.\<close>

definition capturing_world :: world where
  "capturing_world = emit ((obj polling_world)\<lparr>isRunning := True\<rparr>, [Log Info]) polling_world"


definition stop_trace :: "stop_env \<Rightarrow> streamer \<Rightarrow> effect list" where
  "stop_trace env s = snd (snd (stop env s))"






definition is_stop :: "proc_ev \<Rightarrow> bool" where
  "is_stop ev = (case ev of Stop ok \<Rightarrow> True | _ \<Rightarrow> False)"

definition reloads_x11 :: "effect list \<Rightarrow> nat" where
  "reloads_x11 fx = count_list fx PageReload"





text \<open>
  Three turns of the polled loop in which the encoder exits between captures, is
  relaunched and exits again.
\<close>

definition polled_crash_ticks :: "capture_tick list" where
  "polled_crash_ticks =
     [\<lparr> ct_capture = Captured [255, 216] None Flushed, ct_now = 6000, ct_load = loaded 9500,
        ct_elapsed = 40, ct_events = [ProcClose 1] \<rparr>,
      \<lparr> ct_capture = Captured [255, 216] None Flushed, ct_now = 6166, ct_load = loaded 9666,
        ct_elapsed = 1, ct_events = [] \<rparr>,
      \<lparr> ct_capture = Captured [255, 216] None Flushed, ct_now = 7166, ct_load = loaded 10666,
        ct_elapsed = 1, ct_events = [TimerFires, ProcClose 1] \<rparr>]"

section \<open>Invariants of the program\<close>

lemma written_append: "written (a @ b) = written a + written b"
  by (induction a rule: written.induct) auto

lemma progress_refl: "progress w w"
  by (simp add: progress_def)

lemma progress_trans: "progress w w1 \<Longrightarrow> progress w1 w2 \<Longrightarrow> progress w w2"
  by (auto simp: progress_def)

lemma progress_fields:
  "progress w (w'\<lparr>timers := t\<rparr>) = progress w w'"
  "progress w (w'\<lparr>live_procs := n\<rparr>) = progress w w'"
  "progress w (w'\<lparr>exit_code := c\<rparr>) = progress w w'"
  "progress (w\<lparr>timers := t\<rparr>) w' = progress w w'"
  "progress (w\<lparr>live_procs := n\<rparr>) w' = progress w w'"
  "progress (w\<lparr>exit_code := c\<rparr>) w' = progress w w'"
  by (simp_all add: progress_def)

lemma keeps_emit: "keeps (obj w) s fx \<Longrightarrow> progress w (emit (s, fx) w)"
  by (simp add: keeps_def progress_def emit_def written_append)

lemma keeps_refl: "written fx = 0 \<Longrightarrow> keeps s s fx"
  by (simp add: keeps_def)

lemma keeps_trans: "keeps s s1 fx1 \<Longrightarrow> keeps s1 s2 fx2 \<Longrightarrow> keeps s s2 (fx1 @ fx2)"
  by (simp add: keeps_def written_append)

lemma keeps_pad: "keeps s s' fx \<Longrightarrow> written a = 0 \<Longrightarrow> written b = 0 \<Longrightarrow> keeps s s' (a @ fx @ b)"
  by (simp add: keeps_def written_append)

lemma keeps_onClose: "onClose code s = (s', fx) \<Longrightarrow> keeps s s' fx"
  by (auto simp: onClose_def keeps_def Let_def page_owned_def running_has_page_def split: if_splits)

lemma keeps_startFFmpeg: "startFFmpeg s = (s', fx) \<Longrightarrow> keeps s s' fx"
  by (auto simp: startFFmpeg_def keeps_def page_owned_def running_has_page_def)

lemma keeps_sendFrameToFFmpeg: "sendFrameToFFmpeg f w s = (r, s', fx) \<Longrightarrow> keeps s s' fx"
  by (cases w) (auto simp: sendFrameToFFmpeg_def keeps_def Let_def page_owned_def running_has_page_def split: if_splits)

lemma keeps_onScreencastFrame: "onScreencastFrame fr w a s = (s', fx) \<Longrightarrow> keeps s s' fx"
  by (cases w) (auto simp: onScreencastFrame_def sendFrameToFFmpeg_def keeps_def Let_def page_owned_def running_has_page_def written_append split: if_splits)

lemma keeps_stop: "stop env s = (r, s', fx) \<Longrightarrow> keeps s s' fx"
  by (auto simp: stop_def stopScreencast_def Let_def page_owned_def keeps_def running_has_page_def written_append
           split: option.splits prod.splits cdp_stop_env.splits if_splits)

lemma keeps_loadPage: "loadPage env s = (r, s', fx) \<Longrightarrow> keeps s s' fx"
  by (auto simp: loadPage_def keeps_def page_owned_def running_has_page_def split: if_splits)

lemma keeps_refresh: "refreshPageIfNeeded cfg now env s = (r, s', fx) \<Longrightarrow> keeps s s' fx"
  by (auto simp: refreshPageIfNeeded_def loadPage_def keeps_def Let_def page_owned_def running_has_page_def split: if_splits)

lemma keeps_startBrowser: "startBrowser env s = (r, s', fx) \<Longrightarrow> keeps s s' fx"
  by (cases env) (auto simp: startBrowser_def keeps_def page_owned_def running_has_page_def)

lemma written_stats [simp]: "written (stats_line cfg s) = 0"
  by (simp add: stats_line_def)

lemma step_progress: "progress w (step ev w)"
proof (cases "exit_code w = None")
  case False
  then show ?thesis by (auto simp: step_def progress_refl)
next
  case live: True
  show ?thesis
  proof (cases ev)
    case (EncoderClose code)
    obtain s' fx where oc: "onClose code (obj w) = (s', fx)" by (cases "onClose code (obj w)") auto
    have "progress w (emit (s', fx) (w\<lparr>live_procs := live_procs w - 1\<rparr>))"
      using keeps_emit [of "w\<lparr>live_procs := live_procs w - 1\<rparr>" s' fx] keeps_onClose [OF oc]
      by (simp add: progress_fields)
    with EncoderClose oc live show ?thesis by (simp add: step_def handle_event_def progress_refl)
  next
    case RelaunchTimer
    obtain s' fx where oc: "startFFmpeg (obj w) = (s', fx)" by (cases "startFFmpeg (obj w)") auto
    have "\<And>ds. progress w (emit (s', fx) (w\<lparr>timers := ds\<rparr>))"
      using keeps_emit [of "w\<lparr>timers := ds\<rparr>" s' fx for ds] keeps_startFFmpeg [OF oc]
      by (simp add: progress_fields)
    with RelaunchTimer oc live show ?thesis
      by (simp add: step_def handle_event_def progress_refl split: list.splits)
  next
    case (ScreencastFrame fr wr ack)
    obtain s' fx where oc: "onScreencastFrame fr wr ack (obj w) = (s', fx)"
      by (cases "onScreencastFrame fr wr ack (obj w)") auto
    from keeps_emit [OF keeps_onScreencastFrame [OF oc]] ScreencastFrame oc live
    show ?thesis by (simp add: step_def handle_event_def progress_refl)
  next
    case StdinDrain
    with live show ?thesis by (simp add: step_def handle_event_def progress_refl)
  next
    case (StopCall env)
    obtain r s' fx where oc: "stop env (obj w) = (r, s', fx)" by (cases "stop env (obj w)") auto
    from keeps_emit [OF keeps_stop [OF oc]] StopCall oc live
    show ?thesis by (simp add: step_def handle_event_def)
  next
    case (Shutdown sg env)
    obtain r s' fx where oc: "stop env (obj w) = (r, s', fx)" by (cases "stop env (obj w)") auto
    have k: "keeps (obj w) s' fx" by (rule keeps_stop [OF oc])
    from keeps_emit [OF keeps_pad [OF k, of "[Log Info]" "[ProcessExit 0]"]]
         keeps_emit [OF keeps_pad [OF k, of "[Log Info]" "[Log Err]"]] Shutdown oc live
    show ?thesis by (cases r) (simp_all add: step_def handle_event_def progress_fields)
  qed
qed

lemma run_events_progress: "progress w (run_events evs w)"
proof (induction evs arbitrary: w)
  case Nil
  show ?case by (simp add: progress_refl)
next
  case (Cons ev evs)
  from progress_trans [OF step_progress Cons.IH] show ?case by simp
qed

lemma screencast_loop_progress: "progress w (snd (screencast_loop cfg ts w))"
proof (induction ts arbitrary: w)
  case Nil
  show ?case by (simp add: progress_refl)
next
  case (Cons t ts)
  obtain r s fx where rf: "refreshPageIfNeeded cfg (tick_now t) (tick_load t) (obj w) = (r, s, fx)"
    by (cases "refreshPageIfNeeded cfg (tick_now t) (tick_load t) (obj w)") auto
  have k: "keeps (obj w) s fx" by (rule keeps_refresh [OF rf])
  show ?case
  proof (cases r)
    case (Inl e)
    with rf keeps_emit [OF k] show ?thesis by (simp add: progress_refl)
  next
    case (Inr u)
    let ?w1 = "emit (s, fx @ stats_line cfg s @ [Sleep 1000]) w"
    have "progress w ?w1"
      using keeps_emit [OF keeps_pad [OF k, of "[]" "stats_line cfg s @ [Sleep 1000]"]]
      by (simp add: written_append)
    from progress_trans [OF progress_trans [OF this run_events_progress] Cons.IH] rf Inr
    show ?thesis by (simp add: progress_refl)
  qed
qed

lemma startScreencast_progress: "progress w (snd (startScreencast cfg env ts w))"
proof -
  have k0: "\<And>fx. written fx = 0 \<Longrightarrow> progress w (emit (obj w, fx) w)"
    by (rule keeps_emit [OF keeps_refl])
  have k1: "\<And>fx. written fx = 0 \<Longrightarrow> progress w (emit ((obj w)\<lparr>cdpSession := Some CDPSession\<rparr>, fx) w)"
    by (intro keeps_emit) (simp_all add: keeps_def page_owned_def running_has_page_def)
  have k2: "\<And>fx. written fx = 0 \<Longrightarrow> page (obj w) \<noteq> None \<Longrightarrow>
      progress w (emit ((obj w)\<lparr>cdpSession := Some CDPSession, isRunning := True\<rparr>, fx) w)"
    by (intro keeps_emit) (simp_all add: keeps_def page_owned_def running_has_page_def)
  show ?thesis
  proof (cases env)
    case CdpStarted
    show ?thesis
    proof (cases "page (obj w) = None")
      case True
      with k0 show ?thesis by (simp add: startScreencast_def Let_def)
    next
      case False
      from progress_trans [OF k2 [OF _ False] screencast_loop_progress] CdpStarted False
      show ?thesis by (auto simp: startScreencast_def Let_def)
    qed
  qed (simp_all add: startScreencast_def Let_def k0 k1)
qed

lemma start_try_progress: "progress w (snd (start_try cfg env w))"
proof -
  let ?banner = "[Log Info, Log Info, Log Info, Log Info]"
  obtain r s fx where sb: "startBrowser (se_browser env) (obj w) = (r, s, fx)"
    by (cases "startBrowser (se_browser env) (obj w)") auto
  obtain r1 s1 fx1 where lp: "loadPage (se_load env) s = (r1, s1, fx1)"
    by (cases "loadPage (se_load env) s") auto
  obtain s2 fx2 where sf: "startFFmpeg s1 = (s2, fx2)" by (cases "startFFmpeg s1") auto
  have ka: "keeps (obj w) s fx" by (rule keeps_startBrowser [OF sb])
  have kb: "keeps (obj w) s1 (fx @ fx1)" by (rule keeps_trans [OF ka keeps_loadPage [OF lp]])
  have kc: "keeps (obj w) s2 ((fx @ fx1) @ fx2)" by (rule keeps_trans [OF kb keeps_startFFmpeg [OF sf]])
  have a: "progress w (emit (s, ?banner @ fx) w)"
    using keeps_emit [OF keeps_pad [OF ka, of ?banner "[]"]] by simp
  have b: "progress w (emit (s1, ?banner @ fx @ fx1) w)"
    using keeps_emit [OF keeps_pad [OF kb, of ?banner "[]"]] by simp
  let ?w1 = "run_events (se_events env) (emit (s2, ?banner @ fx @ fx1 @ fx2 @ [Sleep 2000]) w)"
  have "progress w (emit (s2, ?banner @ fx @ fx1 @ fx2 @ [Sleep 2000]) w)"
    using keeps_emit [OF keeps_pad [OF kc, of ?banner "[Sleep 2000]"]] by simp
  then have d: "progress w ?w1" by (rule progress_trans [OF _ run_events_progress])
  have e: "progress w (snd (startScreencast cfg (se_cdp env) (se_ticks env) ?w1))"
    by (rule progress_trans [OF d startScreencast_progress])
  show ?thesis
    using sb lp sf a b d e
    by (cases r; cases r1) (simp_all add: start_try_def Let_def)
qed

lemma start_progress: "progress w (snd (start cfg env w))"
proof -
  obtain r w1 where st: "start_try cfg env w = (r, w1)" by (cases "start_try cfg env w") auto
  have c1: "progress w w1" using start_try_progress [of w cfg env] st by simp
  obtain q s fx where sp: "stop (se_stop env) (obj w1) = (q, s, fx)"
    by (cases "stop (se_stop env) (obj w1)") auto
  have "progress w1 (emit (s, Log Err # fx) w1)"
    using keeps_emit [OF keeps_pad [OF keeps_stop [OF sp], of "[Log Err]" "[]"]] by simp
  from progress_trans [OF c1 this] st sp c1 show ?thesis
    by (cases r; cases q) (simp_all add: start_def)
qed

lemma main_loop_progress: "progress w (snd (main_loop cfg as w))"
proof (induction as arbitrary: w)
  case Nil
  show ?case by (simp add: progress_refl)
next
  case (Cons a as)
  show ?case
  proof (cases "exit_code w")
    case (Some c)
    then show ?thesis by (simp add: progress_refl)
  next
    case None
    obtain r w1 where st: "start cfg (at_start a) w = (r, w1)"
      by (cases "start cfg (at_start a) w") auto
    have c1: "progress w w1" using start_progress [of w cfg "at_start a"] st by simp
    obtain q s fx where sp: "stop (at_stop a) (obj w1) = (q, s, fx)"
      by (cases "stop (at_stop a) (obj w1)") auto
    have k: "keeps (obj w1) s fx" by (rule keeps_stop [OF sp])
    have e1: "progress w (emit (s, Log Err # fx @ [Log Err, ProcessExit 1]) w1)"
      using progress_trans [OF c1 keeps_emit [OF keeps_pad [OF k, of "[Log Err]" "[Log Err, ProcessExit 1]"]]]
      by simp
    have e2: "progress w (emit (s, Log Err # fx @ [Log Info, Sleep (RESTART_DELAY cfg)]) w1)"
      using progress_trans [OF c1 keeps_emit [OF keeps_pad [OF k, of "[Log Err]" "[Log Info, Sleep (RESTART_DELAY cfg)]"]]]
      by simp
    show ?thesis
    proof (cases r)
      case (Rejected e)
      show ?thesis
      proof (cases q)
        case (Inl e')
        with None st Rejected sp e1 show ?thesis by (simp add: progress_fields)
      next
        case (Inr u)
        from progress_trans [OF progress_trans [OF e2 run_events_progress] Cons.IH]
             None st Rejected sp Inr
        show ?thesis by simp
      qed
    next
      case Resolved
      with None st progress_trans [OF c1 Cons.IH] show ?thesis by simp
    next
      case Pending
      with None st c1 show ?thesis by simp
    qed
  qed
qed

lemma main_counts:
  "main cfg now as = (r, Some w, fx) \<Longrightarrow>
     fx = trace w \<and> frameCount (obj w) = written (trace w) \<and> page_owned (obj w) \<and>
     running_has_page (obj w)"
proof -
  assume m: "main cfg now as = (r, Some w, fx)"
  obtain v vfx where vc: "validateConfig cfg = (v, vfx)" by (cases "validateConfig cfg") auto
  have wv: "written vfx = 0" using vc by (auto simp: validateConfig_def split: if_splits)
  let ?w0 = "emit (new_WebsiteStreamer now, vfx @ [OnSignal SIGTERM, OnSignal SIGINT]) (new_world now)"
  have w0: "frameCount (obj ?w0) = 0" "written (trace ?w0) = 0" "page_owned (obj ?w0)"
    "running_has_page (obj ?w0)"
    using wv by (simp_all add: emit_def new_world_def new_WebsiteStreamer_def written_append
        page_owned_def running_has_page_def)
  have p: "progress ?w0 (snd (main_loop cfg as ?w0))" by (rule main_loop_progress)
  from m vc have "w = snd (main_loop cfg as ?w0)" "fx = trace w"
    by (cases v; auto simp: main_def split: prod.splits)+
  with p w0 show ?thesis by (simp add: progress_def)
qed

lemma stop_cases:
  "stop env s = (r, s', fx) \<Longrightarrow>
     \<not> isRunning s' \<and> cdpSession s' = None \<and> ffmpeg s' = None \<and>
     frameCount s' = frameCount s \<and> lastRefreshTime s' = lastRefreshTime s \<and>
     (r = Inr () \<longrightarrow> browser s' = None) \<and>
     (r \<noteq> Inr () \<longrightarrow> browser s' = browser s \<and> page s' = page s) \<and>
     (page_owned s \<longrightarrow> page_owned s')"
  by (auto simp: stop_def stopScreencast_def Let_def page_owned_def
           split: option.splits prod.splits cdp_stop_env.splits if_splits)

lemma stop_released:
  "cdpSession s = None \<Longrightarrow> ffmpeg s = None \<Longrightarrow> browser s = None \<Longrightarrow> \<not> isRunning s \<Longrightarrow>
     stop env s = (Inr (), s, [Log Info, Log Info])"
  by (simp add: stop_def stopScreencast_def Let_def)



lemma reloads_stats [simp]: "reloads (a @ stats_line cfg s @ b) = reloads (a @ b)"
  by (simp add: reloads_def stats_line_def)

lemma refresh_succeeds:
  "page s \<noteq> None \<Longrightarrow> nav_ok env \<Longrightarrow> fst (refreshPageIfNeeded cfg now env s) = Inr ()"
  by (auto simp: refreshPageIfNeeded_def loadPage_def Let_def)

lemma progress_running_has_page:
  "progress w w' \<Longrightarrow> running_has_page (obj w) \<Longrightarrow> running_has_page (obj w')"
  by (simp add: progress_def)

lemma screencast_loop_not_rejected:
  "running_has_page (obj w) \<Longrightarrow> \<forall>t\<in>set ts. nav_ok (tick_load t) \<Longrightarrow>
     fst (screencast_loop cfg ts w) \<noteq> Rejected e"
proof (induction ts arbitrary: w)
  case Nil
  then show ?case by simp
next
  case (Cons t ts)
  show ?case
  proof (cases "exit_code w = None \<and> isRunning (obj w)")
    case False
    then show ?thesis by auto
  next
    case True
    with Cons.prems(1) have pg: "page (obj w) \<noteq> None" by (simp add: running_has_page_def)
    from Cons.prems(2) have ok: "nav_ok (tick_load t)" by simp
    obtain r s fx where rf: "refreshPageIfNeeded cfg (tick_now t) (tick_load t) (obj w) = (r, s, fx)"
      by (cases "refreshPageIfNeeded cfg (tick_now t) (tick_load t) (obj w)") auto
    with refresh_succeeds [OF pg ok, of cfg "tick_now t"] have r: "r = Inr ()" by simp
    let ?w1 = "emit (s, fx @ stats_line cfg s @ [Sleep 1000]) w"
    have "progress w ?w1"
      using keeps_emit [OF keeps_pad [OF keeps_refresh [OF rf], of "[]" "stats_line cfg s @ [Sleep 1000]"]]
      by (simp add: written_append)
    from progress_trans [OF this run_events_progress [of ?w1 "tick_events t"]] Cons.prems(1)
    have "running_has_page (obj (run_events (tick_events t) ?w1))"
      by (rule progress_running_has_page)
    from Cons.IH [OF this] Cons.prems(2) True rf r show ?thesis by simp
  qed
qed

lemma exits_keep_running:
  "\<forall>ev\<in>set evs. exit_or_relaunch ev \<Longrightarrow>
     isRunning (obj (run_events evs w)) = isRunning (obj w) \<and>
     exit_code (run_events evs w) = exit_code w"
proof (induction evs arbitrary: w)
  case Nil
  show ?case by simp
next
  case (Cons ev evs)
  from Cons.prems have "exit_or_relaunch ev" by simp
  then have "isRunning (obj (step ev w)) = isRunning (obj w) \<and> exit_code (step ev w) = exit_code w"
    by (cases ev)
       (auto simp: exit_or_relaunch_def step_def handle_event_def emit_def onClose_def
          startFFmpeg_def Let_def split: list.splits)
  with Cons.IH [of "step ev w"] Cons.prems show ?case by simp
qed

lemma capture_polled_keeps:
  "captureAndSendFrame_polled env s = (r, s', fx) \<Longrightarrow>
     page s' = page s \<and> isRunning s' = isRunning s"
  by (auto simp: captureAndSendFrame_polled_def onClose_def Let_def
           split: if_splits capture_env.splits option.splits pipe_env.splits)

lemma refresh_keeps_running:
  "refreshPageIfNeeded cfg now env s = (r, s', fx) \<Longrightarrow>
     page s' = page s \<and> isRunning s' = isRunning s"
  by (auto simp: refreshPageIfNeeded_def loadPage_def Let_def split: if_splits)

lemma step_polled_running_has_page:
  "running_has_page (obj w) \<Longrightarrow> running_has_page (obj (step_polled ev w))"
  by (cases ev)
     (auto simp: step_polled_def emit_def onClose_def startFFmpeg_polled_def stop_polled_def
        running_has_page_def Let_def split: list.splits option.splits if_splits)

lemma run_polled_running_has_page:
  "running_has_page (obj w) \<Longrightarrow> running_has_page (obj (run_polled evs w))"
  by (induction evs arbitrary: w) (simp_all add: step_polled_running_has_page)

lemma capture_polled_rejects:
  "fst (captureAndSendFrame_polled env s) = Inl e \<Longrightarrow> closed_during env = 1"
  by (auto simp: captureAndSendFrame_polled_def closed_during_def onClose_def Let_def
           split: if_splits capture_env.splits option.splits pipe_env.splits)

lemma capture_loop_not_rejected:
  "running_has_page (obj w) \<Longrightarrow>
   \<forall>t\<in>set ts. nav_ok (ct_load t) \<and> closed_during (ct_capture t) = 0 \<Longrightarrow>
     fst (capture_loop cfg ts w) \<noteq> Rejected e"
proof (induction ts arbitrary: w)
  case Nil
  then show ?case by simp
next
  case (Cons t ts)
  show ?case
  proof (cases "isRunning (obj w)")
    case False
    then show ?thesis by simp
  next
    case True
    with Cons.prems(1) have pg: "page (obj w) \<noteq> None" by (simp add: running_has_page_def)
    from Cons.prems(2) have ok: "nav_ok (ct_load t)" and nc: "closed_during (ct_capture t) = 0"
      by simp_all
    obtain r s fx where cp: "captureAndSendFrame_polled (ct_capture t) (obj w) = (r, s, fx)"
      by (cases "captureAndSendFrame_polled (ct_capture t) (obj w)") auto
    from capture_polled_rejects [of "ct_capture t" "obj w"] cp nc
    obtain success where r: "r = Inr success" by (cases r) auto
    from capture_polled_keeps [OF cp] pg True have s: "page s \<noteq> None" "isRunning s" by simp_all
    obtain r1 s1 fx1 where rf: "refreshPageIfNeeded cfg (ct_now t) (ct_load t) s = (r1, s1, fx1)"
      by (cases "refreshPageIfNeeded cfg (ct_now t) (ct_load t) s") auto
    with refresh_succeeds [OF s(1) ok, of cfg "ct_now t"] have r1: "r1 = Inr ()" by simp
    from refresh_keeps_running [OF rf] s have s1: "running_has_page s1"
      by (simp add: running_has_page_def)
    have "\<And>fxs. running_has_page (obj (run_polled (ct_events t) (emit (s1, fxs) w)))"
      by (rule run_polled_running_has_page) (simp add: emit_def s1)
    from Cons.IH [OF this] Cons.prems(2) True cp r rf r1 show ?thesis
      by (simp add: Let_def)
  qed
qed

lemma capture_failures_keep_going:
  "isRunning (obj w) \<Longrightarrow>
   \<forall>t\<in>set ts. ct_capture t = CaptureThrows \<and> ct_events t = [] \<and>
               age (ct_now t) (obj w) < PAGE_REFRESH_INTERVAL cfg \<Longrightarrow>
     fst (capture_loop cfg ts w) = Pending \<and> obj (snd (capture_loop cfg ts w)) = obj w"
proof (induction ts arbitrary: w)
  case Nil
  then show ?case by simp
next
  case (Cons t ts)
  from Cons.prems(2) have t: "ct_capture t = CaptureThrows" "ct_events t = []"
    "age (ct_now t) (obj w) < PAGE_REFRESH_INTERVAL cfg" by simp_all
  obtain r s fx where cp: "captureAndSendFrame_polled (ct_capture t) (obj w) = (r, s, fx)"
    by (cases "captureAndSendFrame_polled (ct_capture t) (obj w)") auto
  with t(1) have rs: "r = Inr False" "s = obj w"
    by (auto simp: captureAndSendFrame_polled_def split: if_splits)
  from t(3) have rf: "\<And>s. s = obj w \<Longrightarrow>
      refreshPageIfNeeded cfg (ct_now t) (ct_load t) s = (Inr (), s, [])"
    by (simp add: refreshPageIfNeeded_def age_def Let_def)
  have "\<And>fxs. fst (capture_loop cfg ts (emit (obj w, fxs) w)) = Pending \<and>
      obj (snd (capture_loop cfg ts (emit (obj w, fxs) w))) = obj (emit (obj w, fxs) w)"
    using Cons.prems by (intro Cons.IH) (simp_all add: emit_def)
  with Cons.prems(1) cp rs rf t(2) show ?case by (simp add: Let_def emit_def)
qed

lemma polled_send_awaits_drain:
  "page s \<noteq> None \<Longrightarrow> \<not> encoder_not_ready s \<Longrightarrow>
     \<exists>pre post. snd (snd (captureAndSendFrame_polled (Captured f None FullThenDrained) s))
        = pre @ [StdinWrite f WriteBufferFull, Log Warn, OnceDrain, AwaitEvent Drain] @ post"
proof -
  assume "page s \<noteq> None" "\<not> encoder_not_ready s"
  then have "snd (snd (captureAndSendFrame_polled (Captured f None FullThenDrained) s))
      = (PageScreenshot # (if frameCount s = 0 then [Log Info] else [])) @
        [StdinWrite f WriteBufferFull, Log Warn, OnceDrain, AwaitEvent Drain] @
        (if Suc (frameCount s) mod 30 = 0 then [Log Info] else [])"
    by (auto simp: captureAndSendFrame_polled_def Let_def)
  then show ?thesis by blast
qed

lemma stop_effects:
  "stop_trace env s =
     Log Info # snd (stopScreencast (cdp_stop env) (s\<lparr>isRunning := False\<rparr>)) @
     (if ffmpeg s = None then [] else [StdinEnd, Kill SIGTERM]) @
     (if browser s = None then [Log Info]
      else if browser_close_ok env then [BrowserClose, Log Info] else [BrowserClose])"
  by (auto simp: stop_trace_def stop_def stopScreencast_def Let_def
           split: option.splits prod.splits cdp_stop_env.splits)

lemma stopScreencast_effects:
  "set (snd (stopScreencast env s)) \<subseteq> {CdpSend StopScreencast, CdpDetach}"
  by (auto simp: stopScreencast_def split: option.splits cdp_stop_env.splits)



lemma watch_loop_x11_not_rejected: "fst (watch_loop_x11 cfg xs w) \<noteq> Rejected e"
  by (induction xs arbitrary: w) (auto split: prod.splits)





lemma step_x11_keeps_relay:
  "isRunning (obj w) \<Longrightarrow> \<not> is_stop ev \<Longrightarrow>
     isRunning (obj (step_x11 ev w)) \<and> page (obj (step_x11 ev w)) = page (obj w) \<and>
     lastRefreshTime (obj (step_x11 ev w)) = lastRefreshTime (obj w) \<and>
     reloads_x11 (trace (step_x11 ev w)) = reloads_x11 (trace w)"
  by (cases ev)
     (auto simp: is_stop_def step_x11_def emit_def onClose_x11_def startFFmpeg_x11_def
        reloads_x11_def split: list.splits)

lemma run_x11_keeps_relay:
  "isRunning (obj w) \<Longrightarrow> list_all (\<lambda>ev. \<not> is_stop ev) evs \<Longrightarrow>
     isRunning (obj (run_x11 evs w)) \<and> page (obj (run_x11 evs w)) = page (obj w) \<and>
     lastRefreshTime (obj (run_x11 evs w)) = lastRefreshTime (obj w) \<and>
     reloads_x11 (trace (run_x11 evs w)) = reloads_x11 (trace w)"
proof (induction evs arbitrary: w)
  case Nil
  then show ?case by simp
next
  case (Cons ev evs)
  from Cons.prems have q: "\<not> is_stop ev" "list_all (\<lambda>ev. \<not> is_stop ev) evs" by simp_all
  note s = step_x11_keeps_relay [OF Cons.prems(1) q(1)]
  from s have r: "isRunning (obj (step_x11 ev w))" by simp
  from Cons.IH [OF r q(2)] s show ?case by simp
qed








lemma run_polled_keeps_running:
  "list_all (\<lambda>ev. \<not> is_stop ev) evs \<Longrightarrow>
     isRunning (obj (run_polled evs w)) = isRunning (obj w)"
proof (induction evs arbitrary: w)
  case Nil
  show ?case by simp
next
  case (Cons ev evs)
  from Cons.prems have "\<not> is_stop ev" by simp
  then have "isRunning (obj (step_polled ev w)) = isRunning (obj w)"
    by (cases ev)
       (auto simp: is_stop_def step_polled_def emit_def onClose_def startFFmpeg_polled_def
          Let_def split: list.splits)
  with Cons.IH [of "step_polled ev w"] Cons.prems show ?case by simp
qed

section \<open>Properties\<close>

subsection \<open>Frames sent while no encoder accepts them\<close>

text \<open>
  C10. When \<open>this.ffmpeg\<close> is \<open>null\<close> or its input pipe is not writable,
  \<open>sendFrameToFFmpeg\<close> and \<open>captureAndSendFrame\<close> return \<open>false\<close> without raising, touch
  nothing outside the program and leave the object as it was. That is the situation
  after the \<open>'close'\<close> handler has run (until the relaunch) and after \<open>stop()\<close>.
\<close>

theorem send_without_encoder_drops_frame:
  "(encoder_not_ready s \<longrightarrow>
      sendFrameToFFmpeg f w s = (Returned False, s, []) \<and>
      captureAndSendFrame shot w s = (Returned False, s, []))
   \<and> encoder_not_ready (fst (onClose code s))
   \<and> encoder_not_ready (fst (snd (stop env s)))"
proof (intro conjI impI)
  assume "encoder_not_ready s"
  then show "sendFrameToFFmpeg f w s = (Returned False, s, [])"
    by (simp add: sendFrameToFFmpeg_def)
next
  assume "encoder_not_ready s"
  then show "captureAndSendFrame shot w s = (Returned False, s, [])"
    by (simp add: captureAndSendFrame_def)
next
  show "encoder_not_ready (fst (onClose code s))"
    by (simp add: onClose_def encoder_not_ready_def Let_def)
next
  show "encoder_not_ready (fst (snd (stop env s)))"
    by (simp add: stop_def stopScreencast_def encoder_not_ready_def Let_def
             split: option.splits prod.splits cdp_stop_env.splits)
qed

theorem send_without_encoder_drops_frame_witness:
  "encoder_not_ready (fst (onClose 1 streaming))
   \<and> sendFrameToFFmpeg [255, 216] WriteAccepted (fst (onClose 1 streaming))
       = (Returned False, fst (onClose 1 streaming), [])
   \<and> captureAndSendFrame (Screenshot [255, 216]) WriteAccepted (fst (onClose 1 streaming))
       = (Returned False, fst (onClose 1 streaming), [])"
  using send_without_encoder_drops_frame
          [of "fst (onClose 1 streaming)" "[255, 216]" WriteAccepted
              "Screenshot [255, 216]" 1 stop_ok]
  by (simp add: onClose_def streaming_def encoder_not_ready_def)

subsection \<open>Boot without a stream key\<close>

text \<open>
  C9. When \<open>STREAM_KEY\<close> is missing (or empty), \<open>validateConfig\<close> throws before the
  streamer is constructed: whatever the environment would let later attempts do, the
  program logs the error and exits with code 1, with no object, no start attempt and no
  restart wait. An unset variable gives such a configuration whatever else is set; with
  a key, validation passes and the streamer is created.
\<close>

theorem missing_stream_key_exits_1:
  "(falsy (STREAM_KEY cfg) \<longrightarrow>
      validateConfig cfg = (Inl ConfigError, []) \<and>
      main cfg now attempts = (Exited 1, None, [Log Err, ProcessExit 1]))
   \<and> (env_STREAM_KEY e = None \<longrightarrow> falsy (STREAM_KEY (CONFIG e)))
   \<and> (\<not> falsy (STREAM_KEY cfg) \<longrightarrow>
        fst (validateConfig cfg) = Inr () \<and> fst (snd (main cfg now attempts)) \<noteq> None)"
proof (intro conjI impI)
  assume k: "falsy (STREAM_KEY cfg)"
  then show v: "validateConfig cfg = (Inl ConfigError, [])"
    by (simp add: validateConfig_def)
  then show "main cfg now attempts = (Exited 1, None, [Log Err, ProcessExit 1])"
    by (simp add: main_def)
next
  assume "env_STREAM_KEY e = None"
  then show "falsy (STREAM_KEY (CONFIG e))"
    by (simp add: falsy_def CONFIG_def)
next
  assume k: "\<not> falsy (STREAM_KEY cfg)"
  then show "fst (validateConfig cfg) = Inr ()"
    by (simp add: validateConfig_def)
  from k show "fst (snd (main cfg now attempts)) \<noteq> None"
    by (simp add: main_def validateConfig_def split: prod.splits)
qed

theorem missing_stream_key_exits_1_witness:
  "env_STREAM_KEY env_empty = None
   \<and> falsy (STREAM_KEY (CONFIG env_empty))
   \<and> main (CONFIG env_empty) 0 [one_attempt hourly_ticks]
       = (Exited 1, None, [Log Err, ProcessExit 1])
   \<and> \<not> falsy (STREAM_KEY (CONFIG env_key_only))
   \<and> fst (snd (main (CONFIG env_key_only) 0 [one_attempt hourly_ticks])) \<noteq> None"
proof -
  have a: "env_STREAM_KEY env_empty = None" by (simp add: env_empty_def)
  have b: "\<not> falsy (STREAM_KEY (CONFIG env_key_only))"
    by (simp add: falsy_def CONFIG_def env_key_only_def)
  from missing_stream_key_exits_1 [of "CONFIG env_empty" 0 "[one_attempt hourly_ticks]" env_empty]
       missing_stream_key_exits_1 [of "CONFIG env_key_only" 0 "[one_attempt hourly_ticks]" env_empty]
       a b
  show ?thesis by simp
qed

subsection \<open>Stopping twice\<close>

text \<open>
  After a call of \<open>stop()\<close> that returned, a further call returns too, does nothing but
  write its two log lines and leaves the object as it was: not running, with \<open>browser\<close>,
  \<open>cdpSession\<close> and \<open>ffmpeg\<close> \<open>null\<close>, and \<open>page\<close> \<open>null\<close> as well wherever a page belongs to
  a browser (which \<open>main_counts\<close> shows of every state the program reaches). So two calls
  agree with one whenever \<open>browser.close()\<close> resolves in the first.
\<close>

lemma stop_again_after_return:
  "fst (stop e1 s) = Inr () \<Longrightarrow>
     stop e2 (fst (snd (stop e1 s))) = (Inr (), fst (snd (stop e1 s)), [Log Info, Log Info])
     \<and> stop_twice e1 e2 s = (Inr (), Inr (), fst (snd (stop e1 s)))
     \<and> \<not> isRunning (fst (snd (stop e1 s)))
     \<and> browser (fst (snd (stop e1 s))) = None
     \<and> cdpSession (fst (snd (stop e1 s))) = None
     \<and> ffmpeg (fst (snd (stop e1 s))) = None
     \<and> (page_owned s \<longrightarrow> page (fst (snd (stop e1 s))) = None)"
proof -
  assume ok: "fst (stop e1 s) = Inr ()"
  obtain r s1 fx where st: "stop e1 s = (r, s1, fx)" by (cases "stop e1 s") auto
  with ok have r: "r = Inr ()" by simp
  note c = stop_cases [OF st]
  from c r have rel: "cdpSession s1 = None" "ffmpeg s1 = None" "browser s1 = None" "\<not> isRunning s1"
    by auto
  from stop_released [OF rel] have again: "stop e2 s1 = (Inr (), s1, [Log Info, Log Info])" .
  from c r have po: "page_owned s \<longrightarrow> page s1 = None" by (auto simp: page_owned_def)
  from st r again rel po show ?thesis by (simp add: stop_twice_def)
qed

text \<open>
  C8 does not hold of \<open>stop()\<close>. The call \<open>browser.close()\<close> is not guarded (unlike the
  two CDP calls of \<open>stopScreencast\<close>, whose errors are ignored): when it rejects, \<open>stop()\<close>
  rejects with \<open>browser\<close> and \<open>page\<close> still set. A second call then closes the browser
  again: if that rejects too, the second call raises; if it resolves, the object ends
  with the handles released, which is not where one call left it. The program makes
  exactly these two calls after a failed run: with a page load that fails and a browser
  that cannot be closed, the \<open>stop()\<close> of \<open>start\<close> rejects, the \<open>stop()\<close> of \<open>main\<close> rejects,
  and the process exits with code 1 instead of restarting.
\<close>

theorem second_stop_raises:
  "stop close_fails streaming
     = (Inl BrowserCloseError,
        \<lparr> browser = Some Browser, page = Some Page, cdpSession = None, ffmpeg = None,
          isRunning = False, frameCount = 118, lastRefreshTime = 0 \<rparr>,
        [Log Info, CdpSend StopScreencast, CdpDetach, StdinEnd, Kill SIGTERM, BrowserClose])
   \<and> stop_twice close_fails close_fails streaming
     = (Inl BrowserCloseError, Inl BrowserCloseError,
        \<lparr> browser = Some Browser, page = Some Page, cdpSession = None, ffmpeg = None,
          isRunning = False, frameCount = 118, lastRefreshTime = 0 \<rparr>)
   \<and> stop_twice close_fails stop_ok streaming
     = (Inl BrowserCloseError, Inr (),
        \<lparr> browser = None, page = None, cdpSession = None, ffmpeg = None,
          isRunning = False, frameCount = 118, lastRefreshTime = 0 \<rparr>)
   \<and> main (CONFIG env_key_only) 0 [unclosable_attempt]
     = (Exited 1,
        Some \<lparr> obj = \<lparr> browser = Some Browser, page = Some Page, cdpSession = None,
                       ffmpeg = None, isRunning = False, frameCount = 0,
                       lastRefreshTime = 0 \<rparr>,
               timers = [], live_procs = 0, exit_code = Some 1,
               trace = unclosable_trace \<rparr>,
        unclosable_trace)"
  by code_simp

subsection \<open>The frame counter\<close>

text \<open>
  C6. \<open>frameCount\<close> never decreases: not over any sequence of events, nor over the
  keep-alive loop, nor over the restarts of \<open>main\<close>. \<open>sendFrameToFFmpeg\<close> adds exactly
  one for a frame whose write returned and nothing otherwise, so that at the end of any
  run of the program the counter is the number of frames handed to the encoder.
  \<open>refreshPageIfNeeded\<close> leaves the counter alone: the frame sent after a refresh gets
  the successor of the count before it (119 after 118 in the witness), while a
  successful refresh sets the age of the session to zero.
\<close>

theorem frame_counter_never_resets:
  "(main cfg now attempts = (r, Some w, fx) \<longrightarrow> frameCount (obj w) = written fx)
   \<and> frameCount (obj w0) \<le> frameCount (obj (run_events evs w0))
   \<and> frameCount (obj w0) \<le> frameCount (obj (snd (screencast_loop cfg ts w0)))
   \<and> frameCount (obj w0) \<le> frameCount (obj (snd (main_loop cfg attempts w0)))
   \<and> frameCount (fst (snd (sendFrameToFFmpeg f wr s))) =
        (if encoder_not_ready s \<or> wr = WriteThrows then frameCount s else frameCount s + 1)
   \<and> frameCount (fst (snd (refreshPageIfNeeded cfg t env s))) = frameCount s
   \<and> (\<not> encoder_not_ready s \<and> wr \<noteq> WriteThrows \<longrightarrow>
        frameCount (fst (snd (sendFrameToFFmpeg f wr
           (fst (snd (refreshPageIfNeeded cfg t env s)))))) = frameCount s + 1)
   \<and> (PAGE_REFRESH_INTERVAL cfg \<le> age t s \<and> page s \<noteq> None \<and> nav_ok env \<longrightarrow>
        age (finished_at env) (fst (snd (refreshPageIfNeeded cfg t env s))) = 0)"
proof (intro conjI impI)
  assume "main cfg now attempts = (r, Some w, fx)"
  from main_counts [OF this] show "frameCount (obj w) = written fx" by simp
next
  from run_events_progress [of w0 evs]
  show "frameCount (obj w0) \<le> frameCount (obj (run_events evs w0))"
    by (simp add: progress_def)
next
  from screencast_loop_progress [of w0 cfg ts]
  show "frameCount (obj w0) \<le> frameCount (obj (snd (screencast_loop cfg ts w0)))"
    by (simp add: progress_def)
next
  from main_loop_progress [of w0 cfg attempts]
  show "frameCount (obj w0) \<le> frameCount (obj (snd (main_loop cfg attempts w0)))"
    by (simp add: progress_def)
next
  show "frameCount (fst (snd (sendFrameToFFmpeg f wr s))) =
        (if encoder_not_ready s \<or> wr = WriteThrows then frameCount s else frameCount s + 1)"
    by (cases wr) (simp_all add: sendFrameToFFmpeg_def Let_def)
next
  show "frameCount (fst (snd (refreshPageIfNeeded cfg t env s))) = frameCount s"
    by (simp add: refreshPageIfNeeded_def loadPage_def Let_def)
next
  assume "\<not> encoder_not_ready s \<and> wr \<noteq> WriteThrows"
  then show "frameCount (fst (snd (sendFrameToFFmpeg f wr
           (fst (snd (refreshPageIfNeeded cfg t env s)))))) = frameCount s + 1"
    by (cases wr)
       (simp_all add: sendFrameToFFmpeg_def refreshPageIfNeeded_def loadPage_def Let_def
          encoder_not_ready_def)
next
  assume "PAGE_REFRESH_INTERVAL cfg \<le> age t s \<and> page s \<noteq> None \<and> nav_ok env"
  then show "age (finished_at env) (fst (snd (refreshPageIfNeeded cfg t env s))) = 0"
    by (auto simp: refreshPageIfNeeded_def loadPage_def Let_def age_def)
qed

theorem frame_counter_never_resets_witness:
  "frameCount streaming = 118
   \<and> PAGE_REFRESH_INTERVAL (CONFIG env_key_only) \<le> age 3600000 streaming
   \<and> frameCount (fst (snd (sendFrameToFFmpeg [255, 216] WriteAccepted
        (fst (snd (refreshPageIfNeeded (CONFIG env_key_only) 3600000 (loaded 3603500)
                     streaming)))))) = 119
   \<and> age 3603500
        (fst (snd (refreshPageIfNeeded (CONFIG env_key_only) 3600000 (loaded 3603500)
                     streaming))) = 0
   \<and> fst (snd (main (CONFIG env_key_only) 0 [one_attempt hourly_ticks])) \<noteq> None
   \<and> frameCount (obj (the (fst (snd (main (CONFIG env_key_only) 0 [one_attempt hourly_ticks])))))
       = written (snd (snd (main (CONFIG env_key_only) 0 [one_attempt hourly_ticks])))"
proof -
  have ready: "\<not> encoder_not_ready streaming \<and> WriteAccepted \<noteq> WriteThrows"
    by (simp add: encoder_not_ready_def streaming_def)
  have due: "PAGE_REFRESH_INTERVAL (CONFIG env_key_only) \<le> age 3600000 streaming
             \<and> page streaming \<noteq> None \<and> nav_ok (loaded 3603500)"
    by (simp add: CONFIG_def env_key_only_def parseInt_or_def age_def streaming_def loaded_def)
  have some: "fst (snd (main (CONFIG env_key_only) 0 [one_attempt hourly_ticks])) \<noteq> None"
    by code_simp
  then obtain r w fx where m: "main (CONFIG env_key_only) 0 [one_attempt hourly_ticks] = (r, Some w, fx)"
    by (cases "main (CONFIG env_key_only) 0 [one_attempt hourly_ticks]") auto
  note inst = frame_counter_never_resets
      [of "CONFIG env_key_only" 0 "[one_attempt hourly_ticks]" r w fx streaming_world "[]" "[]"
          "[255, 216]" WriteAccepted streaming 3600000 "loaded 3603500"]
  from inst m ready due some show ?thesis
    by (simp add: loaded_def streaming_def)
qed

subsection \<open>Repeated exits of the encoder\<close>

text \<open>
  C1, as the program has it. No count of exits and no time window exist: whenever the
  encoder exits while the relay is running, the \<open>'close'\<close> handler arms one relaunch
  after a fixed 1000 ms (2000 ms in the x11grab version) and nothing else. Exits and
  relaunches, however many, leave the relay running and the process alive, in all three
  versions. Under the screencast the keep-alive loop is never left with an error on
  their account: as long as no page reload fails, it does not reject whatever events
  arrive; the loop of the x11grab version never rejects at all; and the loop of the
  polled version does not reject for any exit handled between two captures (the exit
  that arrives while a screenshot is awaited is not covered: \<open>closed_during\<close>).
\<close>

theorem encoder_exits_only_relaunch:
  "(isRunning s \<longrightarrow>
      onClose code s = (s\<lparr>ffmpeg := None\<rparr>, [Log Warn, Log Info, SetTimeout 1000 Relaunch]) \<and>
      onClose_x11 code s = (s, [Log Warn, Log Info, SetTimeout 2000 Relaunch]))
   \<and> ((\<forall>ev\<in>set evs. exit_or_relaunch ev) \<longrightarrow>
        isRunning (obj (run_events evs w)) = isRunning (obj w) \<and>
        exit_code (run_events evs w) = exit_code w)
   \<and> (running_has_page (obj w) \<and> (\<forall>t\<in>set ts. nav_ok (tick_load t)) \<longrightarrow>
        (\<forall>e. fst (screencast_loop cfg ts w) \<noteq> Rejected e))
   \<and> (\<forall>e. fst (runMainLoop_x11 cfg xs w) \<noteq> Rejected e)
   \<and> (list_all (\<lambda>ev. \<not> is_stop ev) pevs \<longrightarrow>
        isRunning (obj (run_polled pevs w)) = isRunning (obj w))
   \<and> (isRunning (obj w) \<and> list_all (\<lambda>ev. \<not> is_stop ev) pevs \<longrightarrow>
        isRunning (obj (run_x11 pevs w)))
   \<and> (running_has_page (obj w) \<and>
        (\<forall>t\<in>set cts. nav_ok (ct_load t) \<and> closed_during (ct_capture t) = 0) \<longrightarrow>
        (\<forall>e. fst (capture_loop cfg cts w) \<noteq> Rejected e))"
proof (intro conjI impI allI)
  assume "isRunning s"
  then show "onClose code s = (s\<lparr>ffmpeg := None\<rparr>, [Log Warn, Log Info, SetTimeout 1000 Relaunch])"
    by (simp add: onClose_def Let_def)
next
  assume "isRunning s"
  then show "onClose_x11 code s = (s, [Log Warn, Log Info, SetTimeout 2000 Relaunch])"
    by (simp add: onClose_x11_def)
next
  assume a: "\<forall>ev\<in>set evs. exit_or_relaunch ev"
  from exits_keep_running [OF a] show "isRunning (obj (run_events evs w)) = isRunning (obj w)"
    by simp
  from exits_keep_running [OF a] show "exit_code (run_events evs w) = exit_code w"
    by simp
next
  fix e
  assume "running_has_page (obj w) \<and> (\<forall>t\<in>set ts. nav_ok (tick_load t))"
  then show "fst (screencast_loop cfg ts w) \<noteq> Rejected e"
    by (simp add: screencast_loop_not_rejected)
next
  fix e
  show "fst (runMainLoop_x11 cfg xs w) \<noteq> Rejected e"
    by (simp add: runMainLoop_x11_def watch_loop_x11_not_rejected)
next
  assume "list_all (\<lambda>ev. \<not> is_stop ev) pevs"
  then show "isRunning (obj (run_polled pevs w)) = isRunning (obj w)"
    by (rule run_polled_keeps_running)
next
  assume "isRunning (obj w) \<and> list_all (\<lambda>ev. \<not> is_stop ev) pevs"
  then have "isRunning (obj w)" "list_all (\<lambda>ev. \<not> is_stop ev) pevs" by simp_all
  from run_x11_keeps_relay [OF this] show "isRunning (obj (run_x11 pevs w))" by simp
next
  fix e
  assume "running_has_page (obj w) \<and>
        (\<forall>t\<in>set cts. nav_ok (ct_load t) \<and> closed_during (ct_capture t) = 0)"
  then show "fst (capture_loop cfg cts w) \<noteq> Rejected e"
    by (simp add: capture_loop_not_rejected)
qed

theorem encoder_exits_only_relaunch_witness:
  "isRunning streaming
   \<and> list_all exit_or_relaunch [EncoderClose 1, RelaunchTimer, EncoderClose 1]
   \<and> running_has_page (obj streaming_world)
   \<and> list_all (\<lambda>t. nav_ok (tick_load t)) crash_ticks
   \<and> list_all (\<lambda>ev. \<not> is_stop ev) [ProcClose 1, TimerFires, ProcClose 1]
   \<and> isRunning (obj capturing_world) \<and> running_has_page (obj capturing_world)
   \<and> list_all (\<lambda>t. nav_ok (ct_load t) \<and> closed_during (ct_capture t) = 0) polled_crash_ticks
   \<and> onClose 1 streaming
       = (streaming\<lparr>ffmpeg := None\<rparr>, [Log Warn, Log Info, SetTimeout 1000 Relaunch])
   \<and> onClose_x11 1 streaming = (streaming, [Log Warn, Log Info, SetTimeout 2000 Relaunch])
   \<and> isRunning (obj (run_events [EncoderClose 1, RelaunchTimer, EncoderClose 1] streaming_world))
   \<and> (\<forall>e. fst (screencast_loop (CONFIG env_two_fps) crash_ticks streaming_world) \<noteq> Rejected e)
   \<and> isRunning (obj (run_polled [ProcClose 1, TimerFires, ProcClose 1] capturing_world))
   \<and> isRunning (obj (run_x11 [ProcClose 1, TimerFires, ProcClose 1] capturing_world))
   \<and> (\<forall>e. fst (capture_loop (CONFIG env_six_fps) polled_crash_ticks capturing_world)
             \<noteq> Rejected e)"
proof -
  have a: "isRunning streaming" by (simp add: streaming_def)
  have b: "\<forall>ev\<in>set [EncoderClose 1, RelaunchTimer, EncoderClose 1]. exit_or_relaunch ev"
    by (simp add: exit_or_relaunch_def)
  have c: "running_has_page (obj streaming_world)"
    by (simp add: running_has_page_def streaming_world_def streaming_def)
  have d: "\<forall>t\<in>set crash_ticks. nav_ok (tick_load t)"
    by (simp add: crash_ticks_def loaded_def)
  have e: "list_all (\<lambda>ev. \<not> is_stop ev) [ProcClose 1, TimerFires, ProcClose 1]"
    by (simp add: is_stop_def)
  have f: "isRunning (obj capturing_world) \<and> running_has_page (obj capturing_world)"
    by (simp add: capturing_world_def polling_world_def emit_def running_has_page_def)
  have g: "\<forall>t\<in>set polled_crash_ticks. nav_ok (ct_load t) \<and> closed_during (ct_capture t) = 0"
    by (simp add: polled_crash_ticks_def loaded_def closed_during_def)
  from encoder_exits_only_relaunch
         [of streaming 1 "[EncoderClose 1, RelaunchTimer, EncoderClose 1]" streaming_world
             crash_ticks "CONFIG env_two_fps" "[]" "[]" "[]"]
       encoder_exits_only_relaunch
         [of streaming 1 "[]" capturing_world "[]" "CONFIG env_six_fps" "[]"
             "[ProcClose 1, TimerFires, ProcClose 1]" polled_crash_ticks]
       a b c d e f g
  show ?thesis by (simp add: list_all_iff streaming_world_def)
qed

text \<open>
  C1 as stated fails: with a target of 2 frames per second, four exits of the encoder
  within four seconds leave the program in its first attempt, running, with the fourth
  relaunch armed, four encoders spawned and the browser launched once; no error reached
  \<open>main\<close>.
\<close>

theorem four_crashes_no_fatal:
  "fst (main (CONFIG env_two_fps) 0 [one_attempt crash_ticks]) = StillRunning
   \<and> map_option (isRunning \<circ> obj) (fst (snd (main (CONFIG env_two_fps) 0 [one_attempt crash_ticks])))
       = Some True
   \<and> map_option timers (fst (snd (main (CONFIG env_two_fps) 0 [one_attempt crash_ticks])))
       = Some [1000]
   \<and> count_list (snd (snd (main (CONFIG env_two_fps) 0 [one_attempt crash_ticks]))) SpawnFFmpeg = 4
   \<and> count_list (snd (snd (main (CONFIG env_two_fps) 0 [one_attempt crash_ticks]))) BrowserLaunch = 1"
  by code_simp

subsection \<open>Repeated failures to capture a frame\<close>

text \<open>
  C3, as the program has it. In the polled version a failed capture is logged and the
  turn dropped: \<open>captureAndSendFrame\<close> returns \<open>false\<close> with the object unchanged, both
  when \<open>page.screenshot()\<close> throws and when the page or the encoder is not ready. No
  count of failures and no time window exist: after any number of consecutive failed
  captures the loop is still running, with the object as it was, and the loop rejects
  neither for failed captures nor for any event, as long as no page reload fails and the
  encoder does not close while a screenshot is being taken.
\<close>

theorem acquisition_failures_never_escalate:
  "(page s \<noteq> None \<and> \<not> encoder_not_ready s \<longrightarrow>
      captureAndSendFrame_polled CaptureThrows s = (Inr False, s, [PageScreenshot, Log Err]))
   \<and> (page s = None \<or> encoder_not_ready s \<longrightarrow>
        captureAndSendFrame_polled env s
          = (Inr False, s, if frameCount s = 0 then [Log Warn] else []))
   \<and> (isRunning (obj w) \<and>
        (\<forall>t\<in>set ts. ct_capture t = CaptureThrows \<and> ct_events t = [] \<and>
                     age (ct_now t) (obj w) < PAGE_REFRESH_INTERVAL cfg) \<longrightarrow>
        fst (capture_loop cfg ts w) = Pending \<and> obj (snd (capture_loop cfg ts w)) = obj w)
   \<and> (running_has_page (obj w) \<and>
        (\<forall>t\<in>set ts. nav_ok (ct_load t) \<and> closed_during (ct_capture t) = 0) \<longrightarrow>
        (\<forall>e. fst (capture_loop cfg ts w) \<noteq> Rejected e))"
proof (intro conjI impI allI)
  assume "page s \<noteq> None \<and> \<not> encoder_not_ready s"
  then show "captureAndSendFrame_polled CaptureThrows s = (Inr False, s, [PageScreenshot, Log Err])"
    by (simp add: captureAndSendFrame_polled_def)
next
  assume "page s = None \<or> encoder_not_ready s"
  then show "captureAndSendFrame_polled env s
          = (Inr False, s, if frameCount s = 0 then [Log Warn] else [])"
    by (simp add: captureAndSendFrame_polled_def)
next
  assume a: "isRunning (obj w) \<and>
        (\<forall>t\<in>set ts. ct_capture t = CaptureThrows \<and> ct_events t = [] \<and>
                     age (ct_now t) (obj w) < PAGE_REFRESH_INTERVAL cfg)"
  then have r: "isRunning (obj w)" and f: "\<forall>t\<in>set ts. ct_capture t = CaptureThrows \<and> ct_events t = [] \<and>
                     age (ct_now t) (obj w) < PAGE_REFRESH_INTERVAL cfg" by simp_all
  from capture_failures_keep_going [OF r f]
  show "fst (capture_loop cfg ts w) = Pending" "obj (snd (capture_loop cfg ts w)) = obj w"
    by simp_all
next
  fix e
  assume "running_has_page (obj w) \<and>
        (\<forall>t\<in>set ts. nav_ok (ct_load t) \<and> closed_during (ct_capture t) = 0)"
  then show "fst (capture_loop cfg ts w) \<noteq> Rejected e"
    by (simp add: capture_loop_not_rejected)
qed

theorem acquisition_failures_never_escalate_witness:
  "page (obj capturing_world) \<noteq> None \<and> \<not> encoder_not_ready (obj capturing_world)
   \<and> isRunning (obj capturing_world) \<and> running_has_page (obj capturing_world)
   \<and> list_all (\<lambda>t. ct_capture t = CaptureThrows \<and> ct_events t = [] \<and>
          age (ct_now t) (obj capturing_world) < PAGE_REFRESH_INTERVAL (CONFIG env_six_fps))
        three_failures
   \<and> list_all (\<lambda>t. nav_ok (ct_load t) \<and> closed_during (ct_capture t) = 0) three_failures
   \<and> captureAndSendFrame_polled CaptureThrows (obj capturing_world)
       = (Inr False, obj capturing_world, [PageScreenshot, Log Err])
   \<and> fst (capture_loop (CONFIG env_six_fps) three_failures capturing_world) = Pending
   \<and> obj (snd (capture_loop (CONFIG env_six_fps) three_failures capturing_world))
       = obj capturing_world
   \<and> (\<forall>e. fst (capture_loop (CONFIG env_six_fps) three_failures capturing_world) \<noteq> Rejected e)"
proof -
  have a: "page (obj capturing_world) \<noteq> None \<and> \<not> encoder_not_ready (obj capturing_world)"
    by (simp add: capturing_world_def polling_world_def emit_def encoder_not_ready_def)
  have b: "isRunning (obj capturing_world) \<and>
        (\<forall>t\<in>set three_failures. ct_capture t = CaptureThrows \<and> ct_events t = [] \<and>
          age (ct_now t) (obj capturing_world) < PAGE_REFRESH_INTERVAL (CONFIG env_six_fps))"
    by (simp add: capturing_world_def polling_world_def emit_def three_failures_def
          failed_capture_def age_def CONFIG_def env_six_fps_def parseInt_or_def)
  have c: "running_has_page (obj capturing_world) \<and>
        (\<forall>t\<in>set three_failures. nav_ok (ct_load t) \<and> closed_during (ct_capture t) = 0)"
    by (simp add: capturing_world_def polling_world_def emit_def three_failures_def
          failed_capture_def running_has_page_def loaded_def closed_during_def)
  from acquisition_failures_never_escalate
         [of "obj capturing_world" CaptureThrows capturing_world three_failures
             "CONFIG env_six_fps"]
       a b c
  show ?thesis by (simp add: list_all_iff)
qed

text \<open>
  C3 as stated fails: three consecutive turns in which \<open>page.screenshot()\<close> throws,
  166 ms apart, leave \<open>startCapturing\<close> in its loop with \<open>isRunning\<close> set; each failure
  produced its error line, the warning of the loop and the wait for the next turn, and
  nothing else.
\<close>

theorem three_capture_failures_no_fatal:
  "fst (startCapturing (CONFIG env_six_fps) three_failures polling_world) = Pending
   \<and> isRunning (obj (snd (startCapturing (CONFIG env_six_fps) three_failures polling_world)))
   \<and> trace (snd (startCapturing (CONFIG env_six_fps) three_failures polling_world))
       = [Log Info,
          PageScreenshot, Log Err, Log Warn, Sleep 126,
          PageScreenshot, Log Err, Log Warn, Sleep 126,
          PageScreenshot, Log Err, Log Warn, Sleep 126]"
  by code_simp

subsection \<open>Stopping a live encoder\<close>

text \<open>
  C4, as the program has it. Whenever the encoder handle is set (\<open>this.ffmpeg\<close> is not
  \<open>null\<close>), \<open>stop()\<close> ends the input pipe and sends \<open>SIGTERM\<close> (in that order, after
  stopping the screencast and before closing the browser), forgets the handle at once,
  and returns without waiting for the subprocess:
  it never suspends on the \<open>'close'\<close> event, starts no grace timer and never sends
  \<open>SIGKILL\<close>; the number of live subprocesses is the same after the call. The x11grab
  version sends \<open>SIGTERM\<close> only, its encoder reading no frames from the pipe.
\<close>

theorem stop_signals_without_waiting:
  "(ffmpeg s \<noteq> None \<longrightarrow>
      stop_trace env s =
        Log Info # snd (stopScreencast (cdp_stop env) (s\<lparr>isRunning := False\<rparr>)) @
        [StdinEnd, Kill SIGTERM] @
        (if browser s = None then [Log Info]
         else if browser_close_ok env then [BrowserClose, Log Info] else [BrowserClose])
      \<and> ffmpeg (fst (snd (stop env s))) = None
      \<and> AwaitEvent Close \<notin> set (stop_trace env s)
      \<and> Kill SIGKILL \<notin> set (stop_trace env s)
      \<and> (\<forall>ms. Sleep ms \<notin> set (stop_trace env s)))
   \<and> (ffmpeg s \<noteq> None \<longrightarrow>
      snd (snd (stop_x11 close_ok s)) =
        [Log Info, Kill SIGTERM] @
        (if browser s = None then [Log Info]
         else if close_ok then [BrowserClose, Log Info] else [BrowserClose])
      \<and> ffmpeg (fst (snd (stop_x11 close_ok s))) = None)
   \<and> (exit_code w = None \<longrightarrow> live_procs (step (StopCall env) w) = live_procs w)"
proof (intro conjI impI allI)
  assume f: "ffmpeg s \<noteq> None"
  with stop_effects [of env s]
  show tr: "stop_trace env s =
        Log Info # snd (stopScreencast (cdp_stop env) (s\<lparr>isRunning := False\<rparr>)) @
        [StdinEnd, Kill SIGTERM] @
        (if browser s = None then [Log Info]
         else if browser_close_ok env then [BrowserClose, Log Info] else [BrowserClose])"
    by simp
  show "ffmpeg (fst (snd (stop env s))) = None"
    by (auto simp: stop_def stopScreencast_def Let_def
             split: option.splits prod.splits cdp_stop_env.splits)
  from stopScreencast_effects [of "cdp_stop env" "s\<lparr>isRunning := False\<rparr>"]
  show "AwaitEvent Close \<notin> set (stop_trace env s)" "Kill SIGKILL \<notin> set (stop_trace env s)"
    by (auto simp: tr)
  fix ms
  from stopScreencast_effects [of "cdp_stop env" "s\<lparr>isRunning := False\<rparr>"]
  show "Sleep ms \<notin> set (stop_trace env s)"
    by (auto simp: tr)
next
  assume f: "ffmpeg s \<noteq> None"
  then show "snd (snd (stop_x11 close_ok s)) =
        [Log Info, Kill SIGTERM] @
        (if browser s = None then [Log Info]
         else if close_ok then [BrowserClose, Log Info] else [BrowserClose])"
    by (auto simp: stop_x11_def Let_def split: option.splits)
  show "ffmpeg (fst (snd (stop_x11 close_ok s))) = None"
    by (auto simp: stop_x11_def Let_def split: option.splits)
next
  assume "exit_code w = None"
  then show "live_procs (step (StopCall env) w) = live_procs w"
    by (auto simp: step_def handle_event_def emit_def stop_def stopScreencast_def Let_def
             split: option.splits prod.splits cdp_stop_env.splits)
qed

theorem stop_signals_without_waiting_witness:
  "ffmpeg streaming \<noteq> None \<and> exit_code streaming_world = None
   \<and> stop_trace stop_ok streaming
       = [Log Info, CdpSend StopScreencast, CdpDetach, StdinEnd, Kill SIGTERM, BrowserClose,
          Log Info]
   \<and> ffmpeg (fst (snd (stop stop_ok streaming))) = None
   \<and> Kill SIGKILL \<notin> set (stop_trace stop_ok streaming)
   \<and> snd (snd (stop_x11 True streaming)) = [Log Info, Kill SIGTERM, BrowserClose, Log Info]
   \<and> live_procs (step (StopCall stop_ok) streaming_world) = live_procs streaming_world"
proof -
  have a: "ffmpeg streaming \<noteq> None" by (simp add: streaming_def)
  have b: "exit_code streaming_world = None" by (simp add: streaming_world_def)
  from stop_signals_without_waiting [of streaming stop_ok True streaming_world] a b
  show ?thesis
    by (simp add: stopScreencast_def streaming_def stop_ok_def)
qed

text \<open>
  C4 as stated fails: \<open>stop()\<close> on the steady state returns with the handle dropped and
  the subprocess still alive; its whole interaction is the seven effects below, with no
  wait for the exit and no forced kill.
\<close>

theorem stop_leaves_encoder_alive:
  "stop stop_ok streaming =
     (Inr (),
      \<lparr> browser = None, page = None, cdpSession = None, ffmpeg = None, isRunning = False,
        frameCount = 118, lastRefreshTime = 0 \<rparr>,
      [Log Info, CdpSend StopScreencast, CdpDetach, StdinEnd, Kill SIGTERM, BrowserClose,
       Log Info])
   \<and> live_procs (step (StopCall stop_ok) streaming_world) = 1
   \<and> timers (step (StopCall stop_ok) streaming_world) = []"
  by (simp add: stop_def stopScreencast_def stop_ok_def streaming_def streaming_world_def
        step_def handle_event_def emit_def Let_def)

subsection \<open>Backpressure under the screencast\<close>

text \<open>
  C2 does not hold of the screencast handler. The polled version does wait: after a
  write that reported a full buffer its \<open>captureAndSendFrame\<close> is suspended until the
  \<open>'drain'\<close> (\<open>polled_send_awaits_drain\<close>). Under the screencast a frame arrives and
  its write reports a full buffer; \<open>sendFrameToFFmpeg\<close> returns the promise that waits
  for \<open>'drain'\<close>, the handler drops it and acknowledges the frame at once; the session
  delivers the next frame, and it is written although no \<open>'drain'\<close> has arrived in
  between.
\<close>

theorem screencast_writes_before_drain:
  "trace (run_events [ScreencastFrame (jpeg 1) WriteBufferFull True,
                      ScreencastFrame (jpeg 2) WriteAccepted True] streaming_world)
     = [StdinWrite [255, 216, 1] WriteBufferFull, OnceDrain, CdpSend (ScreencastFrameAck 7),
        StdinWrite [255, 216, 2] WriteAccepted, Log Info, CdpSend (ScreencastFrameAck 7)]"
  by code_simp

subsection \<open>One exit of the encoder\<close>




subsection \<open>Rejuvenation of the page\<close>



end
